theory Spec2Isabelle
  imports Complex_Main
begin

section \<open>Referral and reward settlement: the data model\<close>

text \<open>
  The service is a Node.js program over a MySQL store.  Each table is a list of rows,
  newest row first (the order of \<^verbatim>\<open>ORDER BY created_at DESC\<close>); an INSERT puts
  a row in front.  Identifiers are strings, timestamps are milliseconds as integers, and
  JavaScript numbers are rationals (no claim depends on rounding of doubles; NaN appears
  only as the result of \<^verbatim>\<open>parseFloat\<close> on a missing setting and is the value
  \<open>None\<close> there).  An exception is a value \<open>Inl e\<close>; every operation that can change
  the store returns the store it leaves behind, also when it throws.  Columns and
  properties that none of the operations below reads are left out, and logging is not
  modelled.
\<close>

type_synonym ident = string
type_synonym timestamp = int

datatype js_error = TypeError | SyntaxError | RequestError | DbError

subsection \<open>JavaScript truthiness\<close>

definition num_or :: "rat option \<Rightarrow> rat \<Rightarrow> rat" where
  \<comment> \<open>\<^verbatim>\<open>a || b\<close> on numbers: undefined, null, NaN (all \<open>None\<close>) and 0 are falsy.\<close>
  "num_or a b = (case a of None \<Rightarrow> b | Some x \<Rightarrow> if x = 0 then b else x)"

definition str_or :: "string option \<Rightarrow> string \<Rightarrow> string" where
  \<comment> \<open>\<^verbatim>\<open>a || b\<close> on strings: undefined, null and the empty string are falsy.\<close>
  "str_or a b = (case a of None \<Rightarrow> b | Some s \<Rightarrow> if s = [] then b else s)"

definition str_or_null :: "string option \<Rightarrow> string option" where
  \<comment> \<open>\<^verbatim>\<open>a || null\<close> on strings.\<close>
  "str_or_null a = (case a of None \<Rightarrow> None | Some s \<Rightarrow> if s = [] then None else Some s)"

subsection \<open>Rewards (models/Reward)\<close>

datatype reward_type = referral_bonus | milestone_bonus | campaign_bonus | loyalty_bonus

datatype reward_status = pending | credited | expired | cancelled

datatype source_type = referral | campaign | milestone | manual

datatype json = JNum rat | JStr string | JBool bool

type_synonym json_obj = "(string \<times> json) list"

text \<open>
  The \<^verbatim>\<open>metadata\<close> of a reward: the store holds JSON text (or NULL), and
  \<^verbatim>\<open>Reward.findById\<close> and \<^verbatim>\<open>Reward.findByUser\<close> replace the text by the parsed
  object in the rows they return.
\<close>

datatype metadata =
    Meta_null
  | Meta_text json_obj      \<comment> \<open>the column as stored: the text \<^verbatim>\<open>JSON.stringify(o)\<close>\<close>
  | Meta_object json_obj    \<comment> \<open>a JavaScript object, the result of \<^verbatim>\<open>JSON.parse\<close>\<close>

record reward =
  rw_id :: ident
  rw_user_id :: ident
  rw_user_type :: string
  rw_reward_type :: reward_type
  rw_amount :: rat
  rw_currency :: string
  rw_status :: reward_status
  rw_credited_date :: "timestamp option"
  rw_expiry_date :: "timestamp option"
  rw_source_id :: "ident option"
  rw_source_type :: source_type
  rw_description :: "string option"
  rw_metadata :: metadata

text \<open>The argument object of \<^verbatim>\<open>Reward.create\<close>; an absent property is \<open>None\<close>.\<close>

record reward_data =
  rd_user_id :: ident
  rd_user_type :: string
  rd_reward_type :: reward_type
  rd_amount :: rat
  rd_currency :: "string option"
  rd_expiry_date :: "timestamp option"
  rd_source_id :: "ident option"
  rd_source_type :: source_type
  rd_description :: "string option"
  rd_metadata :: "json_obj option"

subsection \<open>Referrals (models/Referral)\<close>

datatype referral_status = ref_pending | ref_completed | ref_expired | ref_cancelled

datatype completion_condition = first_order | first_delivery | registration

record referral_row =
  rf_id :: ident
  rf_referrer_id :: ident
  rf_referee_id :: ident
  rf_referrer_type :: string
  rf_referee_type :: string
  rf_referral_code :: string
  rf_status :: referral_status
  rf_completion_condition :: completion_condition
  rf_completion_date :: "timestamp option"
  rf_referrer_bonus :: rat
  rf_referee_bonus :: rat
  rf_minimum_order_amount :: "rat option"
  rf_expiry_date :: "timestamp option"
  rf_campaign_id :: "ident option"
  rf_completion_order_id :: "ident option"
  rf_completion_delivery_id :: "ident option"

subsection \<open>Referral codes (models/ReferralCode) and campaigns (models/Campaign)\<close>

record referral_code =
  rc_id :: ident
  rc_owner_id :: ident
  rc_owner_type :: string
  rc_code :: string
  rc_usage_count :: int
  rc_max_usage :: int
  rc_is_active :: bool
  rc_bonus_amount :: rat
  rc_minimum_order_amount :: "rat option"
  rc_expiry_date :: "timestamp option"

record campaign_row =
  cp_id :: ident
  cp_name :: string
  cp_campaign_type :: string
  cp_target_audience :: string
  cp_bonus_amount :: rat
  cp_max_participants :: "int option"
  cp_current_participants :: int
  cp_start_date :: timestamp
  cp_end_date :: timestamp
  cp_is_active :: bool

subsection \<open>The store and the outside world\<close>

record credit_request =
  cr_user_id :: ident
  cr_amount :: rat
  cr_source_id :: ident

text \<open>
  \<open>uuid_calls\<close> counts the calls of \<^verbatim>\<open>uuidv4()\<close>; \<open>credit_requests\<close> and
  \<open>notifications\<close> log the requests sent to the payment and notification services,
  the latest first.
\<close>

record world =
  rewards :: "reward list"
  referrals :: "referral_row list"
  campaigns :: "campaign_row list"
  referral_codes :: "referral_code list"
  uuid_calls :: nat
  credit_requests :: "credit_request list"
  notifications :: "(ident \<times> string) list"

text \<open>
  What the program reads from outside the store: the clock, the identifiers
  \<^verbatim>\<open>uuidv4()\<close> returns (the \<open>k\<close>-th call returns \<open>env_uuid k\<close>), whether the payment
  service accepts its \<open>k\<close>-th request, and \<^verbatim>\<open>parseFloat(process.env[name])\<close> for
  the settings (\<open>None\<close> when the setting is missing or not a number).  Two library
  results are taken as given: which strings Joi's \<^verbatim>\<open>string().uuid()\<close> accepts, and
  the date \<^verbatim>\<open>Referral.create\<close> computes with \<^verbatim>\<open>setDate\<close> for a new referral's
  expiry.
\<close>

record env =
  env_now :: timestamp
  env_uuid :: "nat \<Rightarrow> ident"
  env_payment_ok :: "nat \<Rightarrow> bool"
  env_setting :: "string \<Rightarrow> rat option"
  env_joi_uuid :: "string \<Rightarrow> bool"
  env_referral_expiry :: timestamp

section \<open>models/Reward\<close>

definition uuidv4 :: "env \<Rightarrow> world \<Rightarrow> ident \<times> world" where
  "uuidv4 e w = (env_uuid e (uuid_calls w), w\<lparr>uuid_calls := Suc (uuid_calls w)\<rparr>)"

definition parse_row_metadata :: "reward \<Rightarrow> reward" where
  \<comment> \<open>\<^verbatim>\<open>if (reward.metadata) reward.metadata = JSON.parse(reward.metadata)\<close> on a row as
      the store returns it.\<close>
  "parse_row_metadata r =
     (case rw_metadata r of Meta_text obj \<Rightarrow> r\<lparr>rw_metadata := Meta_object obj\<rparr> | _ \<Rightarrow> r)"

definition Reward_findById :: "ident \<Rightarrow> world \<Rightarrow> reward option" where
  "Reward_findById i w = map_option parse_row_metadata (find (\<lambda>r. rw_id r = i) (rewards w))"

definition Reward_findByUser :: "ident \<Rightarrow> reward_status option \<Rightarrow> nat \<Rightarrow> nat \<Rightarrow> world \<Rightarrow> reward list" where
  \<comment> \<open>\<^verbatim>\<open>WHERE user_id = ? [AND status = ?] ORDER BY created_at DESC LIMIT ? OFFSET ?\<close>\<close>
  "Reward_findByUser userId st limit offset w =
     map parse_row_metadata
       (take limit (drop offset
          (filter (\<lambda>r. rw_user_id r = userId \<and> (case st of None \<Rightarrow> True | Some s \<Rightarrow> rw_status r = s))
             (rewards w))))"

definition thirty_days :: int where
  "thirty_days = 30 * 24 * 60 * 60 * 1000"

definition Reward_row :: "env \<Rightarrow> ident \<Rightarrow> reward_data \<Rightarrow> reward" where
  \<comment> \<open>The row the INSERT of \<^verbatim>\<open>Reward.create\<close> writes.  It names no status column
      (the row takes the table's \<^verbatim>\<open>DEFAULT 'pending'\<close>) and no credited date.\<close>
  "Reward_row e i rewardData =
     \<lparr> rw_id = i,
       rw_user_id = rd_user_id rewardData,
       rw_user_type = rd_user_type rewardData,
       rw_reward_type = rd_reward_type rewardData,
       rw_amount = rd_amount rewardData,
       rw_currency = str_or (rd_currency rewardData) ''USD'',
       rw_status = pending,
       rw_credited_date = None,
       rw_expiry_date = Some (case rd_expiry_date rewardData of
                                Some d \<Rightarrow> d | None \<Rightarrow> env_now e + thirty_days),
       rw_source_id = str_or_null (rd_source_id rewardData),
       rw_source_type = rd_source_type rewardData,
       rw_description = str_or_null (rd_description rewardData),
       rw_metadata = Meta_text (case rd_metadata rewardData of None \<Rightarrow> [] | Some obj \<Rightarrow> obj) \<rparr>"

definition Reward_create :: "env \<Rightarrow> reward_data \<Rightarrow> world \<Rightarrow> (js_error + reward option) \<times> world" where
  \<comment> \<open>A second row with the same primary key is refused by the store.\<close>
  "Reward_create e rewardData w0 =
     (case uuidv4 e w0 of
        (i, w) \<Rightarrow>
          if list_ex (\<lambda>r. rw_id r = i) (rewards w) then (Inl DbError, w)
          else (case w\<lparr>rewards := Reward_row e i rewardData # rewards w\<rparr> of
                  w' \<Rightarrow> (Inr (Reward_findById i w'), w')))"

definition Reward_creditReward :: "env \<Rightarrow> ident \<Rightarrow> world \<Rightarrow> reward option \<times> world" where
  \<comment> \<open>\<^verbatim>\<open>UPDATE rewards SET status = 'credited', ... WHERE id = ? AND status = 'pending'\<close>\<close>
  "Reward_creditReward e i w =
     (if list_ex (\<lambda>r. rw_id r = i \<and> rw_status r = pending) (rewards w)
      then let w' = w\<lparr>rewards :=
                       map (\<lambda>r. if rw_id r = i \<and> rw_status r = pending
                                 then r\<lparr>rw_status := credited, rw_credited_date := Some (env_now e)\<rparr>
                                 else r) (rewards w)\<rparr>
           in (Reward_findById i w', w')
      else (None, w))"

definition Reward_updateStatus :: "ident \<Rightarrow> reward_status \<Rightarrow> world \<Rightarrow> reward option \<times> world" where
  \<comment> \<open>\<^verbatim>\<open>UPDATE rewards SET status = ? WHERE id = ?\<close>\<close>
  "Reward_updateStatus i st w =
     (let w' = w\<lparr>rewards := map (\<lambda>r. if rw_id r = i then r\<lparr>rw_status := st\<rparr> else r) (rewards w)\<rparr>
      in (Reward_findById i w', w'))"

section \<open>services/externalServices\<close>

text \<open>
  \<^verbatim>\<open>creditUserAccount\<close> posts the request and returns nothing: its value is
  \<^verbatim>\<open>undefined\<close> when the payment service accepts, and it rethrows when the request
  fails.  \<^verbatim>\<open>sendNotification\<close> swallows every failure.  Both are logged when sent.
\<close>

datatype credit_result =
    js_undefined
  | result_object bool      \<comment> \<open>an object whose \<^verbatim>\<open>success\<close> property is the flag\<close>

definition creditUserAccount :: "env \<Rightarrow> credit_request \<Rightarrow> world \<Rightarrow> (js_error + credit_result) \<times> world" where
  "creditUserAccount e req w =
     (let w' = w\<lparr>credit_requests := req # credit_requests w\<rparr>
      in if env_payment_ok e (length (credit_requests w)) then (Inr js_undefined, w')
         else (Inl RequestError, w'))"

definition sendNotification :: "ident \<Rightarrow> string \<Rightarrow> world \<Rightarrow> world" where
  "sendNotification userId ty w = w\<lparr>notifications := (userId, ty) # notifications w\<rparr>"

section \<open>services/rewardService\<close>

definition credit_request_of :: "reward \<Rightarrow> credit_request" where
  "credit_request_of r = \<lparr> cr_user_id = rw_user_id r, cr_amount = rw_amount r, cr_source_id = rw_id r \<rparr>"

text \<open>
  \<^verbatim>\<open>RewardService.creditReward\<close>, over the credit collaborator it calls.  Reading
  \<^verbatim>\<open>creditResult.success\<close> of \<^verbatim>\<open>undefined\<close> raises a TypeError, which the
  \<^verbatim>\<open>catch\<close> block logs and rethrows.
\<close>

definition creditReward_with ::
  "(env \<Rightarrow> credit_request \<Rightarrow> world \<Rightarrow> (js_error + credit_result) \<times> world) \<Rightarrow>
   env \<Rightarrow> ident \<Rightarrow> world \<Rightarrow> (js_error + reward option) \<times> world" where
  "creditReward_with credit e rewardId w =
     (case Reward_findById rewardId w of
        None \<Rightarrow> (Inr None, w)
      | Some rwd \<Rightarrow>
          if rw_status rwd \<noteq> pending then (Inr (Some rwd), w)
          else (case credit e (credit_request_of rwd) w of
                  (Inl err, w1) \<Rightarrow> (Inl err, w1)
                | (Inr js_undefined, w1) \<Rightarrow> (Inl TypeError, w1)
                | (Inr (result_object success), w1) \<Rightarrow>
                    if success
                    then (case Reward_creditReward e rewardId w1 of
                            (creditedReward, w2) \<Rightarrow>
                              (Inr creditedReward,
                               sendNotification (rw_user_id rwd) ''reward_credited'' w2))
                    else (Inr None, w1)))"

definition creditReward :: "env \<Rightarrow> ident \<Rightarrow> world \<Rightarrow> (js_error + reward option) \<times> world" where
  "creditReward = creditReward_with creditUserAccount"

text \<open>\<open>n\<close> invocations of \<^verbatim>\<open>creditReward\<close> on one reward id, one after the other.\<close>

fun creditReward_times :: "nat \<Rightarrow> env \<Rightarrow> ident \<Rightarrow> world \<Rightarrow> (js_error + reward option) list \<times> world" where
  "creditReward_times 0 e rewardId w = ([], w)"
| "creditReward_times (Suc n) e rewardId w =
     (case creditReward e rewardId w of
        (r, w1) \<Rightarrow> (case creditReward_times n e rewardId w1 of (rs, w2) \<Rightarrow> (r # rs, w2)))"

text \<open>
  A credit collaborator that keeps the contract \<^verbatim>\<open>creditReward\<close> reads (an object
  with a \<^verbatim>\<open>success\<close> flag), for comparison with \<^verbatim>\<open>creditUserAccount\<close>.
\<close>

definition credit_by_contract :: "env \<Rightarrow> credit_request \<Rightarrow> world \<Rightarrow> (js_error + credit_result) \<times> world" where
  "credit_by_contract e req w =
     (Inr (result_object (env_payment_ok e (length (credit_requests w)))),
      w\<lparr>credit_requests := req # credit_requests w\<rparr>)"

section \<open>controllers/rewardController\<close>

datatype response = Response nat string

definition claimReward :: "env \<Rightarrow> ident \<Rightarrow> ident \<Rightarrow> world \<Rightarrow> response \<times> world" where
  \<comment> \<open>\<open>caller\<close> is \<^verbatim>\<open>req.user.id\<close>, \<open>i\<close> is \<^verbatim>\<open>req.params.id\<close>.\<close>
  "claimReward e caller i w =
     (case Reward_findById i w of
        None \<Rightarrow> (Response 404 ''Reward not found'', w)
      | Some rwd \<Rightarrow>
          if rw_user_id rwd \<noteq> caller then (Response 403 ''Access denied'', w)
          else if rw_status rwd \<noteq> pending then (Response 400 ''Reward cannot be claimed'', w)
          else (case Reward_creditReward e i w of
                  (Some creditedReward, w1) \<Rightarrow>
                    (case creditUserAccount e (credit_request_of rwd) w1 of
                       (Inl err, w2) \<Rightarrow> (Response 500 ''Internal server error'', w2)
                     | (Inr u, w2) \<Rightarrow>
                         (Response 200 ''Reward claimed successfully'',
                          sendNotification (rw_user_id rwd) ''reward_credited'' w2))
                | (None, w1) \<Rightarrow> (Response 400 ''Failed to claim reward'', w1)))"

section \<open>models/Campaign\<close>

definition Campaign_findById :: "ident \<Rightarrow> world \<Rightarrow> campaign_row option" where
  "Campaign_findById i w = find (\<lambda>c. cp_id c = i) (campaigns w)"

definition Campaign_incrementParticipants :: "ident \<Rightarrow> world \<Rightarrow> world" where
  \<comment> \<open>\<^verbatim>\<open>UPDATE campaigns SET current_participants = current_participants + 1 WHERE id = ?\<close>\<close>
  "Campaign_incrementParticipants i w =
     w\<lparr>campaigns := map (\<lambda>c. if cp_id c = i
                                then c\<lparr>cp_current_participants := cp_current_participants c + 1\<rparr>
                                else c) (campaigns w)\<rparr>"

text \<open>
  The argument of \<^verbatim>\<open>Campaign.create\<close>, after \<^verbatim>\<open>validateCampaign\<close>; the INSERT
  stores \<^verbatim>\<open>campaignData.max_participants || null\<close>, and the row takes the defaults
  \<^verbatim>\<open>current_participants = 0\<close> and \<^verbatim>\<open>is_active = TRUE\<close>.
\<close>

record campaign_data =
  cd_name :: string
  cd_campaign_type :: string
  cd_target_audience :: "string option"
  cd_bonus_amount :: rat
  cd_max_participants :: "int option"
  cd_start_date :: timestamp
  cd_end_date :: timestamp

definition Campaign_create :: "env \<Rightarrow> campaign_data \<Rightarrow> world \<Rightarrow> (js_error + campaign_row option) \<times> world" where
  "Campaign_create e campaignData w0 =
     (let (i, w) = uuidv4 e w0;
          row = \<lparr> cp_id = i,
                  cp_name = cd_name campaignData,
                  cp_campaign_type = cd_campaign_type campaignData,
                  cp_target_audience = str_or (cd_target_audience campaignData) ''all'',
                  cp_bonus_amount = cd_bonus_amount campaignData,
                  cp_max_participants =
                    (case cd_max_participants campaignData of
                       None \<Rightarrow> None | Some m \<Rightarrow> if m = 0 then None else Some m),
                  cp_current_participants = 0,
                  cp_start_date = cd_start_date campaignData,
                  cp_end_date = cd_end_date campaignData,
                  cp_is_active = True \<rparr>
      in if list_ex (\<lambda>c. cp_id c = i) (campaigns w) then (Inl DbError, w)
         else let w' = w\<lparr>campaigns := row # campaigns w\<rparr> in (Inr (Campaign_findById i w'), w'))"

section \<open>services/rewardService: campaign rewards\<close>

definition processCampaignReward ::
  "env \<Rightarrow> ident \<Rightarrow> string \<Rightarrow> ident \<Rightarrow> rat option \<Rightarrow> string option \<Rightarrow> world \<Rightarrow>
   (js_error + reward option) \<times> world" where
  "processCampaignReward e userId userType campaignId customAmount customDescription w =
     (case Campaign_findById campaignId w of
        None \<Rightarrow> (Inr None, w)
      | Some cmp \<Rightarrow>
          if \<not> cp_is_active cmp then (Inr None, w)
          else if env_now e < cp_start_date cmp \<or> env_now e > cp_end_date cmp then (Inr None, w)
          else if (case cp_max_participants cmp of
                     None \<Rightarrow> False
                   | Some m \<Rightarrow> m \<noteq> 0 \<and> cp_current_participants cmp \<ge> m) then (Inr None, w)
          else (case Reward_create e
                       \<lparr> rd_user_id = userId,
                         rd_user_type = userType,
                         rd_reward_type = campaign_bonus,
                         rd_amount = num_or customAmount (cp_bonus_amount cmp),
                         rd_currency = None,
                         rd_expiry_date = None,
                         rd_source_id = Some campaignId,
                         rd_source_type = campaign,
                         rd_description =
                           Some (str_or customDescription (''Campaign bonus: '' @ cp_name cmp)),
                         rd_metadata =
                           Some [(''campaign_id'', JStr campaignId),
                                 (''campaign_name'', JStr (cp_name cmp)),
                                 (''campaign_type'', JStr (cp_campaign_type cmp))] \<rparr> w of
                  (Inl err, w1) \<Rightarrow> (Inl err, w1)
                | (Inr rwd, w1) \<Rightarrow> (Inr rwd, Campaign_incrementParticipants campaignId w1)))"

section \<open>models/Referral\<close>

definition Referral_findById :: "ident \<Rightarrow> world \<Rightarrow> referral_row option" where
  "Referral_findById i w = find (\<lambda>r. rf_id r = i) (referrals w)"

definition Referral_findByReferee :: "ident \<Rightarrow> world \<Rightarrow> referral_row list" where
  "Referral_findByReferee refereeId w = filter (\<lambda>r. rf_referee_id r = refereeId) (referrals w)"

definition Referral_completeReferral ::
  "env \<Rightarrow> ident \<Rightarrow> ident option \<Rightarrow> ident option \<Rightarrow> world \<Rightarrow> referral_row option \<times> world" where
  \<comment> \<open>\<^verbatim>\<open>UPDATE referrals SET status = 'completed', ... WHERE id = ? AND status = 'pending'\<close>\<close>
  "Referral_completeReferral e i order_id delivery_id w =
     (if list_ex (\<lambda>r. rf_id r = i \<and> rf_status r = ref_pending) (referrals w)
      then (case w\<lparr>referrals :=
                    map (\<lambda>r. if rf_id r = i \<and> rf_status r = ref_pending
                              then r\<lparr>rf_status := ref_completed,
                                     rf_completion_date := Some (env_now e),
                                     rf_completion_order_id := str_or_null order_id,
                                     rf_completion_delivery_id := str_or_null delivery_id\<rparr>
                              else r) (referrals w)\<rparr> of
              w' \<Rightarrow> (Referral_findById i w', w'))
      else (None, w))"

definition Referral_updateStatus :: "ident \<Rightarrow> referral_status \<Rightarrow> world \<Rightarrow> referral_row option \<times> world" where
  \<comment> \<open>\<^verbatim>\<open>UPDATE referrals SET status = ?, updated_at = CURRENT_TIMESTAMP WHERE id = ?\<close>\<close>
  "Referral_updateStatus i st w =
     (case w\<lparr>referrals := map (\<lambda>r. if rf_id r = i then r\<lparr>rf_status := st\<rparr> else r) (referrals w)\<rparr> of
        w' \<Rightarrow> (Referral_findById i w', w'))"

definition Referral_getExpiredReferrals :: "env \<Rightarrow> world \<Rightarrow> referral_row list" where
  \<comment> \<open>\<^verbatim>\<open>WHERE status = 'pending' AND expiry_date < CURRENT_TIMESTAMP\<close>; a NULL expiry
      date never compares.\<close>
  "Referral_getExpiredReferrals e w =
     filter (\<lambda>r. rf_status r = ref_pending
                 \<and> (case rf_expiry_date r of None \<Rightarrow> False | Some d \<Rightarrow> d < env_now e))
       (referrals w)"

definition Referral_completed_count :: "ident \<Rightarrow> world \<Rightarrow> nat" where
  \<comment> \<open>\<^verbatim>\<open>completed_referrals\<close> of \<^verbatim>\<open>Referral.getReferralStats(referrerId)\<close>: the
      filter on the referrer is added only when \<^verbatim>\<open>referrerId\<close> is truthy.\<close>
  "Referral_completed_count referrerId w =
     length (filter (\<lambda>r. (referrerId = [] \<or> rf_referrer_id r = referrerId) \<and> rf_status r = ref_completed)
               (referrals w))"

section \<open>services/cronJobs: the referral expiry job\<close>

text \<open>
  The job reads the expired referrals, then updates them one by one.  \<open>expire_each\<close> is
  the \<^verbatim>\<open>for\<close> loop over the rows read; other requests may run between the read and
  the loop, and between two updates.
\<close>

fun expire_each :: "referral_row list \<Rightarrow> world \<Rightarrow> world" where
  "expire_each [] w = w"
| "expire_each (r # rs) w = expire_each rs (snd (Referral_updateStatus (rf_id r) ref_expired w))"

definition referral_expiry_job :: "env \<Rightarrow> world \<Rightarrow> world" where
  "referral_expiry_job e w = expire_each (Referral_getExpiredReferrals e w) w"

section \<open>services/rewardService: milestones\<close>

definition milestoneAmounts :: "env \<Rightarrow> (nat \<times> rat) list" where
  "milestoneAmounts e =
     [(5, num_or (env_setting e ''MILESTONE_BONUS_5'') 15),
      (10, num_or (env_setting e ''MILESTONE_BONUS_10'') 30),
      (25, num_or (env_setting e ''MILESTONE_BONUS_25'') 75),
      (50, num_or (env_setting e ''MILESTONE_BONUS_50'') 150),
      (100, num_or (env_setting e ''MILESTONE_BONUS_100'') 300)]"

definition parsed_milestone :: "metadata \<Rightarrow> js_error + json option" where
  \<comment> \<open>\<^verbatim>\<open>JSON.parse(m).milestone\<close> for a truthy \<open>m\<close>.  \<^verbatim>\<open>JSON.parse\<close> turns its
      argument into a string first: an object becomes \<^verbatim>\<open>[object Object]\<close>, which is
      not JSON.\<close>
  "parsed_milestone m =
     (case m of
        Meta_text obj \<Rightarrow> Inr (map_of obj ''milestone'')
      | Meta_object obj \<Rightarrow> Inl SyntaxError
      | Meta_null \<Rightarrow> Inl TypeError)"

text \<open>
  \<^verbatim>\<open>existingRewards.some(r => r.reward_type === 'milestone_bonus' && r.metadata &&
  JSON.parse(r.metadata || '{}').milestone === milestone)\<close>, left to right.
\<close>

fun some_milestone :: "nat \<Rightarrow> reward list \<Rightarrow> js_error + bool" where
  "some_milestone ms [] = Inr False"
| "some_milestone ms (r # rs) =
     (if rw_reward_type r = milestone_bonus \<and> rw_metadata r \<noteq> Meta_null
      then (case parsed_milestone (rw_metadata r) of
              Inl err \<Rightarrow> Inl err
            | Inr v \<Rightarrow> if v = Some (JNum (of_nat ms)) then Inr True else some_milestone ms rs)
      else some_milestone ms rs)"

definition processMilestoneReward ::
  "env \<Rightarrow> ident \<Rightarrow> string \<Rightarrow> nat \<Rightarrow> world \<Rightarrow> (js_error + reward option) \<times> world" where
  \<comment> \<open>Every caller leaves the fourth parameter \<^verbatim>\<open>metadata\<close> at its default, the
      empty object.  \<^verbatim>\<open>achievement_date\<close> is kept as the clock's value, and the
      description (a sentence naming the milestone) is shortened.\<close>
  "processMilestoneReward e userId userType ms w =
     (case map_of (milestoneAmounts e) ms of
        None \<Rightarrow> (Inr None, w)
      | Some amount \<Rightarrow>
          if amount = 0 then (Inr None, w)
          else (case some_milestone ms (Reward_findByUser userId None 1000 0 w) of
                  Inl err \<Rightarrow> (Inl err, w)
                | Inr True \<Rightarrow> (Inr None, w)
                | Inr False \<Rightarrow>
                    (case Reward_create e
                            \<lparr> rd_user_id = userId,
                              rd_user_type = userType,
                              rd_reward_type = milestone_bonus,
                              rd_amount = amount,
                              rd_currency = None,
                              rd_expiry_date = None,
                              rd_source_id = None,
                              rd_source_type = milestone,
                              rd_description = Some ''Milestone bonus'',
                              rd_metadata =
                                Some [(''milestone'', JNum (of_nat ms)),
                                      (''achievement_date'', JNum (of_int (env_now e)))] \<rparr> w of
                       (Inl err, w1) \<Rightarrow> (Inl err, w1)
                     | (Inr None, w1) \<Rightarrow> (Inl TypeError, w1)
                     | (Inr (Some rwd), w1) \<Rightarrow>
                         (case creditReward e (rw_id rwd) w1 of
                            (Inl err, w2) \<Rightarrow> (Inl err, w2)
                          | (Inr c, w2) \<Rightarrow>
                              (Inr (Some rwd), sendNotification userId ''milestone_achieved'' w2)))))"

text \<open>
  The loop of \<^verbatim>\<open>checkMilestoneAchievements\<close> over the thresholds, in the source's
  order; an exception leaves the loop.
\<close>

fun milestone_loop ::
  "env \<Rightarrow> ident \<Rightarrow> string \<Rightarrow> nat \<Rightarrow> nat list \<Rightarrow> reward list \<Rightarrow> world \<Rightarrow> (js_error + reward list) \<times> world" where
  "milestone_loop e userId userType completedReferrals [] achieved w = (Inr achieved, w)"
| "milestone_loop e userId userType completedReferrals (ms # rest) achieved w =
     (if completedReferrals \<ge> ms
      then (case processMilestoneReward e userId userType ms w of
              (Inl err, w1) \<Rightarrow> (Inl err, w1)
            | (Inr None, w1) \<Rightarrow> milestone_loop e userId userType completedReferrals rest achieved w1
            | (Inr (Some rwd), w1) \<Rightarrow>
                milestone_loop e userId userType completedReferrals rest (achieved @ [rwd]) w1)
      else milestone_loop e userId userType completedReferrals rest achieved w)"

definition checkMilestoneAchievements :: "env \<Rightarrow> ident \<Rightarrow> string \<Rightarrow> world \<Rightarrow> reward list \<times> world" where
  \<comment> \<open>The \<^verbatim>\<open>catch\<close> block logs the error and returns the empty list.\<close>
  "checkMilestoneAchievements e userId userType w =
     (case milestone_loop e userId userType (Referral_completed_count userId w)
             [5, 10, 25, 50, 100] [] w of
        (Inl err, w1) \<Rightarrow> ([], w1)
      | (Inr achieved, w1) \<Rightarrow> (achieved, w1))"

definition milestone_rewards_of :: "ident \<Rightarrow> nat \<Rightarrow> world \<Rightarrow> reward list" where
  \<comment> \<open>The stored \<open>milestone_bonus\<close> rewards of a user whose metadata is tagged with the
      milestone number.\<close>
  "milestone_rewards_of userId ms w =
     filter (\<lambda>r. rw_user_id r = userId \<and> rw_reward_type r = milestone_bonus
                 \<and> (case rw_metadata r of
                       Meta_text obj \<Rightarrow> map_of obj ''milestone'' = Some (JNum (of_nat ms))
                     | _ \<Rightarrow> False))
       (rewards w)"

section \<open>controllers/referralController: the trigger predicate\<close>

text \<open>
  The payload \<^verbatim>\<open>trigger_data\<close> of a trigger request; a property the payload lacks
  is \<open>None\<close>.  The amount is a number when present.
\<close>

record trigger_data =
  td_customer_id :: "ident option"
  td_driver_id :: "ident option"
  td_user_id :: "ident option"
  td_amount :: "rat option"

text \<open>
  What JavaScript reads from a DECIMAL column of a row the store returns: null, or the
  decimal's text, such as \<^verbatim>\<open>'0.00'\<close> or \<^verbatim>\<open>'20.00'\<close> (the driver hands
  DECIMAL values over as strings, which is why the reward service applies
  \<^verbatim>\<open>parseFloat\<close> to \<^verbatim>\<open>r.referrer_bonus\<close>).  The text of a decimal is never
  empty, so it is truthy whatever its value; a comparison with a number converts it to
  its value.
\<close>

datatype js_decimal = decimal_null | decimal_text rat

definition read_decimal :: "rat option \<Rightarrow> js_decimal" where
  "read_decimal c = (case c of None \<Rightarrow> decimal_null | Some v \<Rightarrow> decimal_text v)"

definition js_not :: "js_decimal \<Rightarrow> bool" where
  \<comment> \<open>\<^verbatim>\<open>!x\<close>: null is falsy, a non-empty string is truthy.\<close>
  "js_not x = (case x of decimal_null \<Rightarrow> True | decimal_text v \<Rightarrow> False)"

definition js_ge :: "rat option \<Rightarrow> js_decimal \<Rightarrow> bool" where
  \<comment> \<open>\<^verbatim>\<open>a >= b\<close> for \<open>a\<close> a number or undefined: undefined becomes NaN and the
      comparison is false; \<open>b\<close> becomes its value, null becomes 0.\<close>
  "js_ge a b =
     (case a of
        None \<Rightarrow> False
      | Some x \<Rightarrow> (case b of decimal_null \<Rightarrow> x \<ge> 0 | decimal_text v \<Rightarrow> x \<ge> v))"

text \<open>
  \<^verbatim>\<open>shouldCompleteReferral(referral, triggerType, triggerData)\<close>.  The conjunctions
  are evaluated left to right, so a request without a payload raises a TypeError only
  when the trigger type matches.  \<open>rf\<close> is a row \<^verbatim>\<open>Referral.findByReferee\<close>
  returned, so its \<^verbatim>\<open>minimum_order_amount\<close> is read as a DECIMAL column.
\<close>

definition shouldCompleteReferral ::
  "referral_row \<Rightarrow> string \<Rightarrow> trigger_data option \<Rightarrow> js_error + bool" where
  "shouldCompleteReferral rf triggerType triggerData =
     (case rf_completion_condition rf of
        first_order \<Rightarrow>
          if triggerType \<noteq> ''order_completed'' then Inr False
          else (case triggerData of
                  None \<Rightarrow> Inl TypeError
                | Some d \<Rightarrow>
                    Inr (td_customer_id d = Some (rf_referee_id rf)
                         \<and> (js_not (read_decimal (rf_minimum_order_amount rf))
                            \<or> js_ge (td_amount d) (read_decimal (rf_minimum_order_amount rf)))))
      | first_delivery \<Rightarrow>
          if triggerType \<noteq> ''delivery_completed'' then Inr False
          else (case triggerData of
                  None \<Rightarrow> Inl TypeError
                | Some d \<Rightarrow> Inr (td_driver_id d = Some (rf_referee_id rf)))
      | registration \<Rightarrow>
          if triggerType \<noteq> ''user_verified'' then Inr False
          else (case triggerData of
                  None \<Rightarrow> Inl TypeError
                | Some d \<Rightarrow> Inr (td_user_id d = Some (rf_referee_id rf))))"

section \<open>validators/referralValidator\<close>

text \<open>
  The request bodies, with the JSON types the schemas name; a key the body lacks is
  \<open>None\<close>.  The schemas are Joi's, read with Joi's defaults: a string is not empty, a
  number lies within the safe integers, and a number with \<^verbatim>\<open>precision(2)\<close> is
  rounded to two decimals (\<^verbatim>\<open>Math.round(value * 100) / 100\<close>) before its rules are
  checked.  A validator returns the value with defaults filled in, or \<open>None\<close> for an
  error.
\<close>

record referral_body =
  rb_referral_code :: "string option"
  rb_referee_id :: "string option"
  rb_referee_type :: "string option"

record referral_value =
  rv_referral_code :: string
  rv_referee_id :: string
  rv_referee_type :: string

record code_body =
  cb_code :: "string option"
  cb_max_usage :: "rat option"
  cb_bonus_amount :: "rat option"
  cb_bonus_type :: "string option"
  cb_minimum_order_amount :: "rat option"
  cb_expiry_date :: "timestamp option"
  cb_campaign_id :: "string option"
  cb_allow_multiple :: "bool option"

record code_value =
  cv_code :: "string option"
  cv_max_usage :: rat
  cv_bonus_amount :: "rat option"
  cv_bonus_type :: string
  cv_minimum_order_amount :: rat
  cv_expiry_date :: "timestamp option"
  cv_campaign_id :: "string option"
  cv_allow_multiple :: bool

definition joi_string_max :: "nat \<Rightarrow> string \<Rightarrow> bool" where
  "joi_string_max n s = (s \<noteq> [] \<and> length s \<le> n)"

definition joi_safe :: "rat \<Rightarrow> bool" where
  "joi_safe x = (- 9007199254740991 \<le> x \<and> x \<le> 9007199254740991)"

definition joi_integer :: "rat \<Rightarrow> bool" where
  "joi_integer x = (of_int \<lfloor>x\<rfloor> = x)"

definition joi_round2 :: "rat \<Rightarrow> rat" where
  "joi_round2 x = of_int \<lfloor>x * 100 + 1 / 2\<rfloor> / 100"

definition optional_ok :: "('a \<Rightarrow> bool) \<Rightarrow> 'a option \<Rightarrow> bool" where
  "optional_ok p x = (case x of None \<Rightarrow> True | Some v \<Rightarrow> p v)"

definition validateReferral :: "env \<Rightarrow> referral_body \<Rightarrow> referral_value option" where
  "validateReferral e b =
     (case (rb_referral_code b, rb_referee_id b, rb_referee_type b) of
        (Some c, Some i, Some t) \<Rightarrow>
          if joi_string_max 20 c \<and> i \<noteq> [] \<and> env_joi_uuid e i
             \<and> t \<in> set [''customer'', ''driver'', ''restaurant'']
          then Some \<lparr> rv_referral_code = c, rv_referee_id = i, rv_referee_type = t \<rparr>
          else None
      | _ \<Rightarrow> None)"

definition validateReferralCode :: "env \<Rightarrow> code_body \<Rightarrow> code_value option" where
  "validateReferralCode e b =
     (if optional_ok (joi_string_max 20) (cb_code b)
         \<and> optional_ok (\<lambda>m. joi_safe m \<and> joi_integer m \<and> 1 \<le> m \<and> m \<le> 1000) (cb_max_usage b)
         \<and> optional_ok (\<lambda>x. joi_safe x \<and> 0 < joi_round2 x) (cb_bonus_amount b)
         \<and> optional_ok (\<lambda>t. t \<in> set [''cash'', ''credit'', ''percentage'']) (cb_bonus_type b)
         \<and> optional_ok (\<lambda>x. joi_safe x \<and> 0 \<le> joi_round2 x) (cb_minimum_order_amount b)
         \<and> optional_ok (\<lambda>t. env_now e < t) (cb_expiry_date b)
         \<and> optional_ok (\<lambda>i. i \<noteq> [] \<and> env_joi_uuid e i) (cb_campaign_id b)
      then Some \<lparr> cv_code = cb_code b,
                  cv_max_usage = (case cb_max_usage b of None \<Rightarrow> 50 | Some m \<Rightarrow> m),
                  cv_bonus_amount = map_option joi_round2 (cb_bonus_amount b),
                  cv_bonus_type = (case cb_bonus_type b of None \<Rightarrow> ''credit'' | Some t \<Rightarrow> t),
                  cv_minimum_order_amount =
                    (case cb_minimum_order_amount b of None \<Rightarrow> 0 | Some x \<Rightarrow> joi_round2 x),
                  cv_expiry_date = cb_expiry_date b,
                  cv_campaign_id = cb_campaign_id b,
                  cv_allow_multiple = (case cb_allow_multiple b of None \<Rightarrow> False | Some a \<Rightarrow> a) \<rparr>
      else None)"

section \<open>models/ReferralCode\<close>

definition ReferralCode_validateCode :: "env \<Rightarrow> string \<Rightarrow> world \<Rightarrow> referral_code option" where
  \<comment> \<open>\<^verbatim>\<open>WHERE code = ? AND is_active = TRUE AND usage_count < max_usage AND
      (expiry_date IS NULL OR expiry_date > CURRENT_TIMESTAMP)\<close>, first row or null.\<close>
  "ReferralCode_validateCode e c w =
     find (\<lambda>rc. rc_code rc = c \<and> rc_is_active rc \<and> rc_usage_count rc < rc_max_usage rc
                \<and> (case rc_expiry_date rc of None \<Rightarrow> True | Some d \<Rightarrow> d > env_now e))
       (referral_codes w)"

definition ReferralCode_incrementUsage :: "ident \<Rightarrow> world \<Rightarrow> world" where
  "ReferralCode_incrementUsage i w =
     w\<lparr>referral_codes := map (\<lambda>rc. if rc_id rc = i
                                     then rc\<lparr>rc_usage_count := rc_usage_count rc + 1\<rparr>
                                     else rc) (referral_codes w)\<rparr>"

section \<open>models/Referral: creation\<close>

text \<open>The argument object of \<^verbatim>\<open>Referral.create\<close>, as the controller builds it.\<close>

record referral_data =
  fd_referrer_id :: ident
  fd_referee_id :: ident
  fd_referrer_type :: string
  fd_referee_type :: string
  fd_referral_code :: string
  fd_completion_condition :: completion_condition
  fd_referrer_bonus :: rat
  fd_referee_bonus :: rat
  fd_minimum_order_amount :: "rat option"
  fd_campaign_id :: "ident option"

definition referral_key :: "referral_row \<Rightarrow> ident \<times> ident \<times> string \<times> string" where
  \<comment> \<open>The columns of \<^verbatim>\<open>UNIQUE KEY unique_referral\<close>.\<close>
  "referral_key r = (rf_referrer_id r, rf_referee_id r, rf_referrer_type r, rf_referee_type r)"

definition Referral_row :: "env \<Rightarrow> ident \<Rightarrow> referral_data \<Rightarrow> referral_row" where
  \<comment> \<open>The row the INSERT writes; the status column takes \<^verbatim>\<open>DEFAULT 'pending'\<close>.\<close>
  "Referral_row e i referralData =
     \<lparr> rf_id = i,
       rf_referrer_id = fd_referrer_id referralData,
       rf_referee_id = fd_referee_id referralData,
       rf_referrer_type = fd_referrer_type referralData,
       rf_referee_type = fd_referee_type referralData,
       rf_referral_code = fd_referral_code referralData,
       rf_status = ref_pending,
       rf_completion_condition = fd_completion_condition referralData,
       rf_completion_date = None,
       rf_referrer_bonus = num_or (Some (fd_referrer_bonus referralData)) 0,
       rf_referee_bonus = num_or (Some (fd_referee_bonus referralData)) 0,
       rf_minimum_order_amount = Some (num_or (fd_minimum_order_amount referralData) 0),
       rf_expiry_date = Some (env_referral_expiry e),
       rf_campaign_id = str_or_null (fd_campaign_id referralData),
       rf_completion_order_id = None,
       rf_completion_delivery_id = None \<rparr>"

definition Referral_create :: "env \<Rightarrow> referral_data \<Rightarrow> world \<Rightarrow> (js_error + referral_row option) \<times> world" where
  \<comment> \<open>The store refuses a second row with the same primary key or the same unique key.\<close>
  "Referral_create e referralData w0 =
     (case uuidv4 e w0 of
        (i, w) \<Rightarrow>
          (case Referral_row e i referralData of
             row \<Rightarrow>
               if list_ex (\<lambda>r. rf_id r = i \<or> referral_key r = referral_key row) (referrals w)
               then (Inl DbError, w)
               else (case w\<lparr>referrals := row # referrals w\<rparr> of
                       w' \<Rightarrow> (Inr (Referral_findById i w'), w'))))"

section \<open>controllers/referralController: creating a referral\<close>

definition getCompletionCondition :: "string \<Rightarrow> completion_condition" where
  "getCompletionCondition refereeType =
     (if refereeType = ''customer'' then first_order
      else if refereeType = ''driver'' then first_delivery
      else if refereeType = ''restaurant'' then registration
      else first_order)"

definition getRefereeBonus :: "env \<Rightarrow> string \<Rightarrow> rat" where
  "getRefereeBonus e refereeType =
     (if refereeType = ''customer'' then num_or (env_setting e ''CUSTOMER_REFERRAL_BONUS'') 10
      else if refereeType = ''driver'' then num_or (env_setting e ''DRIVER_REFERRAL_BONUS'') 25
      else if refereeType = ''restaurant'' then num_or (env_setting e ''RESTAURANT_REFERRAL_BONUS'') 50
      else 10)"

definition sendReferralNotifications :: "referral_row \<Rightarrow> world \<Rightarrow> world" where
  "sendReferralNotifications r w =
     sendNotification (rf_referee_id r) ''referral_received''
       (sendNotification (rf_referrer_id r) ''referral_created'' w)"

text \<open>
  The second half of \<^verbatim>\<open>createReferral\<close>, from the comment "Create referral" on:
  \<open>v\<close> is the validated body, \<open>referralCode\<close> the code row and \<open>cmp\<close> the campaign
  chosen (\<^verbatim>\<open>activeCampaigns[0]\<close> or null).
\<close>

definition store_referral ::
  "env \<Rightarrow> referral_value \<Rightarrow> referral_code \<Rightarrow> campaign_row option \<Rightarrow> world \<Rightarrow> response \<times> world" where
  "store_referral e v referralCode cmp w =
     (case Referral_create e
             \<lparr> fd_referrer_id = rc_owner_id referralCode,
               fd_referee_id = rv_referee_id v,
               fd_referrer_type = rc_owner_type referralCode,
               fd_referee_type = rv_referee_type v,
               fd_referral_code = rv_referral_code v,
               fd_completion_condition = getCompletionCondition (rv_referee_type v),
               fd_referrer_bonus =
                 (case cmp of Some c \<Rightarrow> cp_bonus_amount c | None \<Rightarrow> rc_bonus_amount referralCode),
               fd_referee_bonus = getRefereeBonus e (rv_referee_type v),
               fd_minimum_order_amount = rc_minimum_order_amount referralCode,
               fd_campaign_id = map_option cp_id cmp \<rparr> w of
        (Inl err, w1) \<Rightarrow> (Response 500 ''Internal server error'', w1)
      | (Inr None, w1) \<Rightarrow> (Response 500 ''Internal server error'', w1)
      | (Inr (Some rf), w1) \<Rightarrow>
          (Response 201 ''Referral created successfully'',
           sendReferralNotifications rf
             (case cmp of
                None \<Rightarrow> ReferralCode_incrementUsage (rc_id referralCode) w1
              | Some c \<Rightarrow>
                  Campaign_incrementParticipants (cp_id c)
                    (ReferralCode_incrementUsage (rc_id referralCode) w1))))"

text \<open>
  \<^verbatim>\<open>createReferral\<close>, over the result of its call \<^verbatim>\<open>Campaign.findActive(role)\<close>.
  Every exception inside the handler is caught and answered with 500.
\<close>

definition createReferral_with ::
  "(string \<Rightarrow> world \<Rightarrow> js_error + campaign_row list) \<Rightarrow>
   env \<Rightarrow> referral_body \<Rightarrow> world \<Rightarrow> response \<times> world" where
  "createReferral_with findActive e body w =
     (case validateReferral e body of
        None \<Rightarrow> (Response 400 ''Validation error'', w)
      | Some v \<Rightarrow>
          (case ReferralCode_validateCode e (rv_referral_code v) w of
             None \<Rightarrow> (Response 400 ''Invalid or expired referral code'', w)
           | Some referralCode \<Rightarrow>
               if rc_owner_id referralCode = rv_referee_id v
               then (Response 400 ''Cannot refer yourself'', w)
               else if list_ex (\<lambda>r. rf_referrer_id r = rc_owner_id referralCode
                                     \<and> rf_referrer_type r = rc_owner_type referralCode)
                         (Referral_findByReferee (rv_referee_id v) w)
               then (Response 409 ''Referral already exists between these users'', w)
               else (case findActive (rc_owner_type referralCode) w of
                       Inl err \<Rightarrow> (Response 500 ''Internal server error'', w)
                     | Inr activeCampaigns \<Rightarrow>
                         store_referral e v referralCode
                           (case activeCampaigns of [] \<Rightarrow> None | c # cs \<Rightarrow> Some c) w)))"

text \<open>
  models/Campaign defines \<^verbatim>\<open>findActiveCampaigns()\<close> and \<^verbatim>\<open>findByAudience(a)\<close>
  but no \<^verbatim>\<open>findActive\<close>: the call \<^verbatim>\<open>Campaign.findActive(...)\<close> raises a TypeError.
\<close>

definition Campaign_findActive :: "string \<Rightarrow> world \<Rightarrow> js_error + campaign_row list" where
  "Campaign_findActive audience w = Inl TypeError"

definition createReferral :: "env \<Rightarrow> referral_body \<Rightarrow> world \<Rightarrow> response \<times> world" where
  "createReferral = createReferral_with Campaign_findActive"

section \<open>Sample data\<close>

definition sample_uuid :: "nat \<Rightarrow> ident" where
  "sample_uuid k = ''uuid-'' @ replicate k (CHR ''1'')"

definition env0 :: env where
  "env0 = \<lparr> env_now = 1000,
            env_uuid = sample_uuid,
            env_payment_ok = (\<lambda>k. True),
            env_setting = (\<lambda>name. None),
            env_joi_uuid = (\<lambda>s. length s = 36),
            env_referral_expiry = 5000 \<rparr>"

definition empty_world :: world where
  "empty_world = \<lparr> rewards = [], referrals = [], campaigns = [], referral_codes = [],
                    uuid_calls = 0, credit_requests = [], notifications = [] \<rparr>"

definition sample_reward :: reward where
  "sample_reward = \<lparr> rw_id = ''reward-1'',
                      rw_user_id = ''cust-1'',
                      rw_user_type = ''customer'',
                      rw_reward_type = referral_bonus,
                      rw_amount = 10,
                      rw_currency = ''USD'',
                      rw_status = pending,
                      rw_credited_date = None,
                      rw_expiry_date = Some 9000,
                      rw_source_id = Some ''referral-1'',
                      rw_source_type = referral,
                      rw_description = None,
                      rw_metadata = Meta_text [] \<rparr>"

definition sample_reward_data :: reward_data where
  "sample_reward_data = \<lparr> rd_user_id = ''cust-1'',
                           rd_user_type = ''customer'',
                           rd_reward_type = loyalty_bonus,
                           rd_amount = 5,
                           rd_currency = None,
                           rd_expiry_date = None,
                           rd_source_id = None,
                           rd_source_type = manual,
                           rd_description = None,
                           rd_metadata = None \<rparr>"

definition sample_campaign :: campaign_row where
  "sample_campaign = \<lparr> cp_id = ''camp-1'',
                        cp_name = ''Spring'',
                        cp_campaign_type = ''seasonal'',
                        cp_target_audience = ''all'',
                        cp_bonus_amount = 20,
                        cp_max_participants = Some 1,
                        cp_current_participants = 1,
                        cp_start_date = 0,
                        cp_end_date = 2000,
                        cp_is_active = True \<rparr>"

definition pending_world :: world where
  "pending_world = empty_world\<lparr>rewards := [sample_reward]\<rparr>"

definition campaign_world :: world where
  "campaign_world =
     empty_world\<lparr>campaigns :=
       [sample_campaign, sample_campaign\<lparr>cp_id := ''camp-2'', cp_max_participants := Some 5\<rparr>]\<rparr>"

definition bulk_reward :: "nat \<Rightarrow> reward" where
  "bulk_reward k = sample_reward\<lparr> rw_id := ''bulk-'' @ replicate k (CHR ''1''),
                                   rw_reward_type := campaign_bonus,
                                   rw_source_id := Some ''camp-2'',
                                   rw_source_type := campaign \<rparr>"

definition milestone_5_reward :: reward where
  "milestone_5_reward = sample_reward\<lparr> rw_id := ''reward-m5'',
                                        rw_reward_type := milestone_bonus,
                                        rw_amount := 15,
                                        rw_source_id := None,
                                        rw_source_type := milestone,
                                        rw_metadata := Meta_text [(''milestone'', JNum 5),
                                                                  (''achievement_date'', JNum 10)] \<rparr>"

definition completed_referral :: "nat \<Rightarrow> referral_row" where
  "completed_referral k = \<lparr> rf_id = ''referral-'' @ replicate k (CHR ''1''),
                             rf_referrer_id = ''cust-1'',
                             rf_referee_id = ''friend-'' @ replicate k (CHR ''1''),
                             rf_referrer_type = ''customer'',
                             rf_referee_type = ''customer'',
                             rf_referral_code = ''CUS7F3K2A'',
                             rf_status = ref_completed,
                             rf_completion_condition = first_order,
                             rf_completion_date = Some 5,
                             rf_referrer_bonus = 10,
                             rf_referee_bonus = 10,
                             rf_minimum_order_amount = Some 0,
                             rf_expiry_date = Some 9000,
                             rf_campaign_id = None,
                             rf_completion_order_id = None,
                             rf_completion_delivery_id = None \<rparr>"

text \<open>
  A user with five completed referrals, the milestone reward for 5 already granted, and
  a thousand newer campaign rewards.
\<close>

definition crowded_world :: world where
  "crowded_world =
     empty_world\<lparr> rewards := map bulk_reward [0..<1000] @ [milestone_5_reward],
                   referrals := map completed_referral [0..<5] \<rparr>"

definition overdue_referral :: referral_row where
  "overdue_referral = (completed_referral 0)\<lparr> rf_id := ''referral-9'',
                                                rf_referee_id := ''cust-2'',
                                                rf_status := ref_pending,
                                                rf_completion_date := None,
                                                rf_expiry_date := Some 900 \<rparr>"

definition overdue_world :: world where
  "overdue_world = empty_world\<lparr>referrals := [overdue_referral]\<rparr>"

definition order_referral :: referral_row where
  "order_referral = overdue_referral\<lparr>rf_minimum_order_amount := Some 20\<rparr>"

definition zero_minimum_referral :: referral_row where
  "zero_minimum_referral = overdue_referral\<lparr>rf_minimum_order_amount := Some 0\<rparr>"

definition order_payload :: "rat \<Rightarrow> trigger_data" where
  "order_payload a = \<lparr> td_customer_id = Some ''cust-2'', td_driver_id = None,
                        td_user_id = None, td_amount = Some a \<rparr>"

definition order_without_amount :: trigger_data where
  "order_without_amount = \<lparr> td_customer_id = Some ''cust-2'', td_driver_id = None,
                             td_user_id = None, td_amount = None \<rparr>"

definition sample_code_body :: code_body where
  "sample_code_body = \<lparr> cb_code = None, cb_max_usage = None, cb_bonus_amount = Some (25 / 2),
                         cb_bonus_type = None, cb_minimum_order_amount = None,
                         cb_expiry_date = Some 2000, cb_campaign_id = None,
                         cb_allow_multiple = None \<rparr>"

definition referee_uuid :: ident where
  "referee_uuid = ''22222222-2222-4222-8222-222222222222''"

definition sample_code :: referral_code where
  "sample_code = \<lparr> rc_id = ''code-1'',
                    rc_owner_id = ''cust-1'',
                    rc_owner_type = ''customer'',
                    rc_code = ''CUS7F3K2A'',
                    rc_usage_count = 0,
                    rc_max_usage = 50,
                    rc_is_active = True,
                    rc_bonus_amount = 10,
                    rc_minimum_order_amount = Some 0,
                    rc_expiry_date = None \<rparr>"

definition sample_body :: "string \<Rightarrow> referral_body" where
  "sample_body c = \<lparr> rb_referral_code = Some c,
                      rb_referee_id = Some referee_uuid,
                      rb_referee_type = Some ''customer'' \<rparr>"

text \<open>The scenario's store: the code \<open>CUS7F3K2A\<close> of cust-1, unused, and no referral.\<close>

definition scenario_world :: world where
  "scenario_world = empty_world\<lparr>referral_codes := [sample_code]\<rparr>"

text \<open>
  A store where cust-1 holds a second code and has already referred the referee through
  the first one.
\<close>

definition referred_world :: world where
  "referred_world =
     empty_world\<lparr> referral_codes := [sample_code\<lparr>rc_id := ''code-2'', rc_code := ''CUSALT01''\<rparr>,
                                       sample_code],
                   referrals := [overdue_referral\<lparr>rf_referee_id := referee_uuid\<rparr>] \<rparr>"

section \<open>Theorems\<close>

lemma Reward_findById_Cons_same:
  "Reward_findById (rw_id row) (w\<lparr>rewards := row # rs\<rparr>) = Some (parse_row_metadata row)"
  by (simp add: Reward_findById_def)

lemma parse_row_metadata_fields:
  "rw_status (parse_row_metadata r) = rw_status r"
  "rw_currency (parse_row_metadata r) = rw_currency r"
  "rw_id (parse_row_metadata r) = rw_id r"
  "rw_user_id (parse_row_metadata r) = rw_user_id r"
  "rw_reward_type (parse_row_metadata r) = rw_reward_type r"
  "rw_amount (parse_row_metadata r) = rw_amount r"
  by (simp_all add: parse_row_metadata_def split: metadata.splits)

subsection \<open>Reward creation\<close>

lemma Reward_create_fresh:
  assumes "\<not> list_ex (\<lambda>r. rw_id r = env_uuid e (uuid_calls w)) (rewards w)"
  shows "Reward_create e rewardData w
           = (Inr (Some (parse_row_metadata (Reward_row e (env_uuid e (uuid_calls w)) rewardData))),
              w\<lparr>uuid_calls := Suc (uuid_calls w),
                rewards := Reward_row e (env_uuid e (uuid_calls w)) rewardData # rewards w\<rparr>)"
  using assms
  by (simp add: Reward_create_def uuidv4_def Reward_findById_def Reward_row_def)

text \<open>
  Claim C9.  A reward created without an explicit currency is stored with currency
  \<open>USD\<close>, and every created reward starts in status \<open>pending\<close>, whatever its reward
  type.  The creation succeeds whenever the new identifier is not yet a primary key of the
  table; the row returned is the stored row with its metadata parsed.
\<close>

theorem Reward_create_defaults:
  assumes fresh: "\<not> list_ex (\<lambda>r. rw_id r = env_uuid e (uuid_calls w)) (rewards w)"
  shows "\<exists>row w'. Reward_create e rewardData w = (Inr (Some (parse_row_metadata row)), w')
           \<and> rewards w' = row # rewards w
           \<and> rw_reward_type row = rd_reward_type rewardData
           \<and> rw_status row = pending
           \<and> (rd_currency rewardData = None \<longrightarrow> rw_currency row = ''USD'')"
  using fresh
  by (simp add: Reward_create_fresh Reward_row_def str_or_def)

theorem Reward_create_defaults_witness:
  "\<exists>row w'. Reward_create env0 sample_reward_data empty_world
               = (Inr (Some (parse_row_metadata row)), w')
           \<and> rewards w' = row # rewards empty_world
           \<and> rw_reward_type row = loyalty_bonus
           \<and> rw_status row = pending
           \<and> rw_currency row = ''USD''"
  using Reward_create_defaults [of env0 empty_world sample_reward_data]
  by (simp add: empty_world_def sample_reward_data_def)

subsection \<open>Campaign rewards\<close>

lemma find_map_same_key:
  assumes "\<And>x. P (f x) = P x"
  shows "find P (map f xs) = map_option f (find P xs)"
  using assms by (induction xs) auto

lemma Campaign_findById_increment:
  "Campaign_findById i (Campaign_incrementParticipants i w)
     = map_option (\<lambda>c. c\<lparr>cp_current_participants := cp_current_participants c + 1\<rparr>)
         (Campaign_findById i w)"
proof -
  let ?f = "\<lambda>c. if cp_id c = i then c\<lparr>cp_current_participants := cp_current_participants c + 1\<rparr> else c"
  have "find (\<lambda>c. cp_id c = i) (map ?f (campaigns w)) = map_option ?f (find (\<lambda>c. cp_id c = i) (campaigns w))"
    by (rule find_map_same_key) simp
  moreover have "map_option ?f (find (\<lambda>c. cp_id c = i) (campaigns w))
      = map_option (\<lambda>c. c\<lparr>cp_current_participants := cp_current_participants c + 1\<rparr>) (find (\<lambda>c. cp_id c = i) (campaigns w))"
    by (cases "find (\<lambda>c. cp_id c = i) (campaigns w)") (auto dest: find_Some_iff [THEN iffD1])
  ultimately show ?thesis
    by (simp add: Campaign_findById_def Campaign_incrementParticipants_def)
qed

lemma Campaign_create_max_participants:
  "Campaign_create e campaignData w = (Inr (Some c), w') \<Longrightarrow> cp_max_participants c \<noteq> Some 0"
  by (auto simp: Campaign_create_def uuidv4_def Let_def Campaign_findById_def
           split: if_splits option.splits)

text \<open>
  Claim C7.  \<^verbatim>\<open>processCampaignReward\<close> returns null, leaving the store as it was
  (no reward row, no change of the participant counter), when the campaign is missing,
  inactive, outside its window of start and end date, or has as many participants as its
  maximum allows; otherwise it inserts a pending \<open>campaign_bonus\<close> reward for the user
  and adds one to the campaign's counter.  Stored campaigns have no maximum of zero
  (\<^verbatim>\<open>Campaign.create\<close> writes \<^verbatim>\<open>max_participants || null\<close>, see
  \<open>Campaign_create_max_participants\<close>), and the new reward's identifier is fresh.
\<close>

theorem processCampaignReward_gate:
  assumes fresh: "\<not> list_ex (\<lambda>r. rw_id r = env_uuid e (uuid_calls w)) (rewards w)"
      and wf: "list_all (\<lambda>c. cp_max_participants c \<noteq> Some 0) (campaigns w)"
  shows "case Campaign_findById cid w of
           None \<Rightarrow> processCampaignReward e u ut cid amt descr w = (Inr None, w)
         | Some c \<Rightarrow>
             if \<not> cp_is_active c \<or> env_now e < cp_start_date c \<or> cp_end_date c < env_now e
                \<or> (\<exists>m. cp_max_participants c = Some m \<and> m \<le> cp_current_participants c)
             then processCampaignReward e u ut cid amt descr w = (Inr None, w)
             else \<exists>row w'. processCampaignReward e u ut cid amt descr w
                              = (Inr (Some (parse_row_metadata row)), w')
                    \<and> rewards w' = row # rewards w
                    \<and> rw_reward_type row = campaign_bonus
                    \<and> rw_user_id row = u
                    \<and> rw_status row = pending
                    \<and> Campaign_findById cid w'
                        = Some (c\<lparr>cp_current_participants := cp_current_participants c + 1\<rparr>)"
proof (cases "Campaign_findById cid w")
  case None
  then show ?thesis by (simp add: processCampaignReward_def)
next
  case (Some c)
  then have "c \<in> set (campaigns w)"
    by (auto simp: Campaign_findById_def find_Some_iff)
  with wf have nz: "cp_max_participants c \<noteq> Some 0"
    by (simp add: list_all_iff)
  show ?thesis
  proof (cases "\<not> cp_is_active c \<or> env_now e < cp_start_date c \<or> cp_end_date c < env_now e
                \<or> (\<exists>m. cp_max_participants c = Some m \<and> m \<le> cp_current_participants c)")
    case True
    with Some nz show ?thesis
      by (auto simp: processCampaignReward_def split: option.splits)
  next
    case False
    let ?rd = "\<lparr> rd_user_id = u, rd_user_type = ut, rd_reward_type = campaign_bonus,
                  rd_amount = num_or amt (cp_bonus_amount c), rd_currency = None,
                  rd_expiry_date = None, rd_source_id = Some cid, rd_source_type = campaign,
                  rd_description = Some (str_or descr (''Campaign bonus: '' @ cp_name c)),
                  rd_metadata = Some [(''campaign_id'', JStr cid), (''campaign_name'', JStr (cp_name c)),
                                      (''campaign_type'', JStr (cp_campaign_type c))] \<rparr>"
    define row where "row = Reward_row e (env_uuid e (uuid_calls w)) ?rd"
    define w1 where "w1 = w\<lparr>uuid_calls := Suc (uuid_calls w), rewards := row # rewards w\<rparr>"
    have cr: "Reward_create e ?rd w = (Inr (Some (parse_row_metadata row)), w1)"
      unfolding row_def w1_def by (rule Reward_create_fresh [OF fresh])
    have rows: "rewards w1 = row # rewards w" and camps: "campaigns w1 = campaigns w"
      by (simp_all add: w1_def)
    have ty: "rw_reward_type row = campaign_bonus" and st: "rw_status row = pending"
      and uid: "rw_user_id row = u"
      by (simp_all add: row_def Reward_row_def)
    have gate: "\<not> (case cp_max_participants c of None \<Rightarrow> False
                    | Some m \<Rightarrow> m \<noteq> 0 \<and> cp_current_participants c \<ge> m)"
      using False by (auto split: option.splits)
    have res: "processCampaignReward e u ut cid amt descr w
                 = (Inr (Some (parse_row_metadata row)), Campaign_incrementParticipants cid w1)"
      using Some False gate cr by (simp add: processCampaignReward_def)
    have "Campaign_findById cid w1 = Some c"
      using Some camps by (simp add: Campaign_findById_def)
    then have "Campaign_findById cid (Campaign_incrementParticipants cid w1)
                 = Some (c\<lparr>cp_current_participants := cp_current_participants c + 1\<rparr>)"
      by (simp add: Campaign_findById_increment)
    moreover have "rewards (Campaign_incrementParticipants cid w1) = row # rewards w"
      using rows by (simp add: Campaign_incrementParticipants_def)
    ultimately show ?thesis
      using Some False res ty st uid by simp
  qed
qed

theorem processCampaignReward_gate_witness:
  "processCampaignReward env0 ''cust-1'' ''customer'' ''camp-1'' None None campaign_world
     = (Inr None, campaign_world)
   \<and> (\<exists>row w'. processCampaignReward env0 ''cust-1'' ''customer'' ''camp-2'' None None campaign_world
                  = (Inr (Some (parse_row_metadata row)), w')
          \<and> rewards w' = row # rewards campaign_world
          \<and> rw_reward_type row = campaign_bonus
          \<and> Campaign_findById ''camp-2'' w'
               = Some (sample_campaign\<lparr>cp_id := ''camp-2'', cp_max_participants := Some 5,
                                         cp_current_participants := 2\<rparr>))"
proof -
  have fresh: "\<not> list_ex (\<lambda>r. rw_id r = env_uuid env0 (uuid_calls campaign_world)) (rewards campaign_world)"
    and wf: "list_all (\<lambda>c. cp_max_participants c \<noteq> Some 0) (campaigns campaign_world)"
    by (simp_all add: campaign_world_def empty_world_def sample_campaign_def)
  have full: "processCampaignReward env0 ''cust-1'' ''customer'' ''camp-1'' None None campaign_world
     = (Inr None, campaign_world)"
    using processCampaignReward_gate [OF fresh wf, where cid = "''camp-1''" and u = "''cust-1''" and ut = "''customer''" and amt = None and descr = None]
    by (simp add: campaign_world_def empty_world_def sample_campaign_def Campaign_findById_def env0_def)
  have found: "Campaign_findById ''camp-2'' campaign_world
                 = Some (sample_campaign\<lparr>cp_id := ''camp-2'', cp_max_participants := Some 5\<rparr>)"
    by (simp add: campaign_world_def empty_world_def sample_campaign_def Campaign_findById_def)
  have room: "\<exists>row w'. processCampaignReward env0 ''cust-1'' ''customer'' ''camp-2'' None None campaign_world
                  = (Inr (Some (parse_row_metadata row)), w')
          \<and> rewards w' = row # rewards campaign_world
          \<and> rw_reward_type row = campaign_bonus
          \<and> Campaign_findById ''camp-2'' w'
               = Some (sample_campaign\<lparr>cp_id := ''camp-2'', cp_max_participants := Some 5,
                                         cp_current_participants := 2\<rparr>)"
    using processCampaignReward_gate [OF fresh wf, where cid = "''camp-2''" and u = "''cust-1''" and ut = "''customer''" and amt = None and descr = None]
    unfolding found
    by (simp add: sample_campaign_def env0_def) blast
  from full room show ?thesis by simp
qed

subsection \<open>Claiming a reward\<close>

text \<open>
  Claim C8.  When the reward exists and its recipient is not the caller,
  \<^verbatim>\<open>claimReward\<close> answers 403 "Access denied" and leaves the store and both logs of
  external calls as they were: no status changes, no credit request, no notification.
  Whenever a claim changes anything at all (the status update, a credit request or a
  notification), the caller is the recipient and the reward was pending.
\<close>

theorem claimReward_access:
  "(Reward_findById i w = Some rwd \<and> rw_user_id rwd \<noteq> caller
      \<longrightarrow> claimReward e caller i w = (Response 403 ''Access denied'', w))
   \<and> (snd (claimReward e caller i w) \<noteq> w
      \<longrightarrow> (\<exists>rwd. Reward_findById i w = Some rwd \<and> rw_user_id rwd = caller \<and> rw_status rwd = pending))"
  by (auto simp: claimReward_def split: option.splits prod.splits sum.splits)

theorem claimReward_access_witness:
  "claimReward env0 ''cust-2'' ''reward-1'' pending_world = (Response 403 ''Access denied'', pending_world)
   \<and> (\<exists>rwd. Reward_findById ''reward-1'' pending_world = Some rwd
          \<and> rw_user_id rwd = ''cust-1'' \<and> rw_status rwd = pending)"
proof -
  have found: "Reward_findById ''reward-1'' pending_world = Some (parse_row_metadata sample_reward)"
    by (simp add: Reward_findById_def pending_world_def empty_world_def sample_reward_def)
  have other: "rw_user_id (parse_row_metadata sample_reward) \<noteq> ''cust-2''"
    by (simp add: parse_row_metadata_fields sample_reward_def)
  have changed: "snd (claimReward env0 ''cust-1'' ''reward-1'' pending_world) \<noteq> pending_world"
    by (simp add: claimReward_def found parse_row_metadata_fields Reward_creditReward_def
          creditUserAccount_def sendNotification_def
          pending_world_def empty_world_def sample_reward_def env0_def Reward_findById_def)
  from claimReward_access [of "''reward-1''" pending_world "parse_row_metadata sample_reward" "''cust-2''" env0]
       claimReward_access [of "''reward-1''" pending_world "parse_row_metadata sample_reward" "''cust-1''" env0]
       found other changed
  show ?thesis by simp
qed

subsection \<open>Crediting a reward\<close>

lemma Reward_findById_credit_requests [simp]:
  "Reward_findById i (w\<lparr>credit_requests := cs\<rparr>) = Reward_findById i w"
  by (simp add: Reward_findById_def)

lemma creditReward_pending:
  assumes "Reward_findById i w = Some rwd" and "rw_status rwd = pending"
  shows "creditReward e i w =
           (Inl (if env_payment_ok e (length (credit_requests w)) then TypeError else RequestError),
            w\<lparr>credit_requests := credit_request_of rwd # credit_requests w\<rparr>)"
  using assms by (simp add: creditReward_def creditReward_with_def creditUserAccount_def)

lemma creditReward_not_pending:
  assumes "Reward_findById i w = Some rwd" and "rw_status rwd \<noteq> pending"
  shows "creditReward_with credit e i w = (Inr (Some rwd), w)"
  using assms by (simp add: creditReward_with_def)

lemma creditReward_times_pending:
  assumes "Reward_findById i w = Some rwd" and "rw_status rwd = pending"
  shows "creditReward_times n e i w =
           (map (\<lambda>k. Inl (if env_payment_ok e (length (credit_requests w) + k)
                          then TypeError else RequestError)) [0..<n],
            w\<lparr>credit_requests := replicate n (credit_request_of rwd) @ credit_requests w\<rparr>)"
  using assms
proof (induction n arbitrary: w)
  case 0
  then show ?case by simp
next
  case (Suc n)
  let ?w1 = "w\<lparr>credit_requests := credit_request_of rwd # credit_requests w\<rparr>"
  have f1: "Reward_findById i ?w1 = Some rwd"
    using Suc.prems by simp
  have shift: "map (\<lambda>k. Inl (if env_payment_ok e (length (credit_requests ?w1) + k) then TypeError else RequestError)) [0..<n]
      = map (\<lambda>k. Inl (if env_payment_ok e (length (credit_requests w) + k) then TypeError else RequestError)) (map Suc [0..<n])"
    by simp
  show ?case
    using Suc.prems Suc.IH [OF f1 Suc.prems(2)]
    apply (simp add: creditReward_pending del: upt_Suc)
    apply (simp add: upt_conv_Cons map_Suc_upt [symmetric] replicate_app_Cons_same del: upt_Suc)
    done
qed


lemma Reward_findById_after_credit:
  assumes "find (\<lambda>r. rw_id r = i) (rewards w) = Some row" and "rw_status row = pending"
  shows "Reward_creditReward e i w =
           (Some (parse_row_metadata (row\<lparr>rw_status := credited, rw_credited_date := Some (env_now e)\<rparr>)),
            w\<lparr>rewards := map (\<lambda>r. if rw_id r = i \<and> rw_status r = pending
                                  then r\<lparr>rw_status := credited, rw_credited_date := Some (env_now e)\<rparr>
                                  else r) (rewards w)\<rparr>)"
proof -
  let ?upd = "\<lambda>r. if rw_id r = i \<and> rw_status r = pending
                   then r\<lparr>rw_status := credited, rw_credited_date := Some (env_now e)\<rparr> else r"
  from assms(1) have mem: "row \<in> set (rewards w)" and idr: "rw_id row = i"
    by (auto simp: find_Some_iff)
  then have ex: "list_ex (\<lambda>r. rw_id r = i \<and> rw_status r = pending) (rewards w)"
    using assms(2) by (auto simp: list_ex_iff)
  have "find (\<lambda>r. rw_id r = i) (map ?upd (rewards w)) = map_option ?upd (find (\<lambda>r. rw_id r = i) (rewards w))"
    by (rule find_map_same_key) simp
  then have "find (\<lambda>r. rw_id r = i) (map ?upd (rewards w))
               = Some (row\<lparr>rw_status := credited, rw_credited_date := Some (env_now e)\<rparr>)"
    using assms idr by simp
  then show ?thesis
    using ex by (simp add: Reward_creditReward_def Reward_findById_def)
qed

text \<open>
  With a credit collaborator that returns the object \<^verbatim>\<open>creditReward\<close> reads, one
  call on a pending reward sends one credit request and moves the reward to \<open>credited\<close>,
  and every later call returns that reward and changes nothing.
\<close>

lemma creditReward_contract_once:
  assumes found: "Reward_findById i w = Some rwd" and pend: "rw_status rwd = pending"
      and ok: "env_payment_ok e (length (credit_requests w))"
  shows "\<exists>r w1. creditReward_with credit_by_contract e i w = (Inr (Some r), w1)
           \<and> rw_status r = credited
           \<and> credit_requests w1 = credit_request_of rwd # credit_requests w
           \<and> (\<forall>e'. creditReward_with credit_by_contract e' i w1 = (Inr (Some r), w1))"
proof -
  from found obtain row where row: "find (\<lambda>r. rw_id r = i) (rewards w) = Some row"
    and rwd: "rwd = parse_row_metadata row"
    by (auto simp: Reward_findById_def)
  have rp: "rw_status row = pending"
    using pend rwd by (simp add: parse_row_metadata_fields)
  let ?w0 = "w\<lparr>credit_requests := credit_request_of rwd # credit_requests w\<rparr>"
  let ?r = "parse_row_metadata (row\<lparr>rw_status := credited, rw_credited_date := Some (env_now e)\<rparr>)"
  have row0: "find (\<lambda>r. rw_id r = i) (rewards ?w0) = Some row"
    using row by simp
  obtain w2 where cas: "Reward_creditReward e i ?w0 = (Some ?r, w2)"
    and w2: "w2 = ?w0\<lparr>rewards := map (\<lambda>r. if rw_id r = i \<and> rw_status r = pending
                                  then r\<lparr>rw_status := credited, rw_credited_date := Some (env_now e)\<rparr>
                                  else r) (rewards ?w0)\<rparr>"
    using Reward_findById_after_credit [OF row0 rp, of e] by simp
  let ?w1 = "sendNotification (rw_user_id rwd) ''reward_credited'' w2"
  have first: "creditReward_with credit_by_contract e i w = (Inr (Some ?r), ?w1)"
    using found pend ok cas by (simp add: creditReward_with_def credit_by_contract_def)
  have "Reward_findById i w2 = Some ?r"
    using cas by (auto simp: Reward_creditReward_def Let_def split: if_splits)
  then have again: "Reward_findById i ?w1 = Some ?r"
    by (simp add: sendNotification_def Reward_findById_def)
  have st: "rw_status ?r = credited"
    by (simp add: parse_row_metadata_fields)
  have later: "\<forall>e'. creditReward_with credit_by_contract e' i ?w1 = (Inr (Some ?r), ?w1)"
    using again st by (simp add: creditReward_with_def)
  have "credit_requests ?w1 = credit_request_of rwd # credit_requests w"
    by (simp add: sendNotification_def w2)
  with first st later show ?thesis by blast
qed

text \<open>
  Claim C1.  \<^verbatim>\<open>creditReward\<close> is to send exactly one credit request however often it
  is invoked on a reward, and to mark the reward credited once.  With the repository's
  \<^verbatim>\<open>creditUserAccount\<close>, which returns nothing, each of \<open>n\<close> invocations on a
  pending reward sends a credit request that the payment service accepts, then fails with
  a TypeError on \<^verbatim>\<open>creditResult.success\<close>; the reward is still pending after all of
  them, and \<open>n\<close> credit requests have been sent.
\<close>

theorem creditReward_repeated_calls:
  "\<forall>n. creditReward_times n env0 ''reward-1'' pending_world
         = (replicate n (Inl TypeError),
            pending_world\<lparr>credit_requests := replicate n (credit_request_of sample_reward)\<rparr>)"
proof
  fix n
  have found: "Reward_findById ''reward-1'' pending_world = Some (parse_row_metadata sample_reward)"
    by (simp add: Reward_findById_def pending_world_def empty_world_def sample_reward_def)
  have pend: "rw_status (parse_row_metadata sample_reward) = pending"
    by (simp add: parse_row_metadata_fields sample_reward_def)
  have req: "credit_request_of (parse_row_metadata sample_reward) = credit_request_of sample_reward"
    by (simp add: credit_request_of_def parse_row_metadata_fields)
  have "map (\<lambda>k. Inl TypeError :: js_error + reward option) [0..<n] = replicate n (Inl TypeError)"
    by (simp add: map_replicate_const)
  then show "creditReward_times n env0 ''reward-1'' pending_world
         = (replicate n (Inl TypeError),
            pending_world\<lparr>credit_requests := replicate n (credit_request_of sample_reward)\<rparr>)"
    using creditReward_times_pending [OF found pend, of n env0]
    by (simp add: req env0_def pending_world_def empty_world_def)
qed

subsection \<open>Milestone rewards\<close>

lemma some_milestone_parsed:
  "some_milestone ms (map parse_row_metadata rs)
     = (if list_ex (\<lambda>r. rw_reward_type r = milestone_bonus \<and> rw_metadata r \<noteq> Meta_null) rs
        then Inl SyntaxError else Inr False)"
  by (induction rs)
     (auto simp: parse_row_metadata_def parsed_milestone_def split: metadata.splits)

lemma milestone_amount_nonzero:
  "map_of (milestoneAmounts e) ms = Some a \<Longrightarrow> a \<noteq> 0"
  by (auto simp: milestoneAmounts_def num_or_def split: if_splits option.splits)

text \<open>
  The rows \<^verbatim>\<open>Reward.findByUser\<close> returns carry parsed metadata, so the second
  \<^verbatim>\<open>JSON.parse\<close> in the scan raises as soon as it meets a milestone reward: the scan
  never answers "found".  Within the thousand newest rewards of the user an earlier
  milestone reward therefore stops the creation by an exception.
\<close>

lemma processMilestoneReward_in_window:
  assumes "map_of (milestoneAmounts e) ms = Some a"
      and "list_ex (\<lambda>r. rw_reward_type r = milestone_bonus \<and> rw_metadata r \<noteq> Meta_null)
             (take 1000 (filter (\<lambda>r. rw_user_id r = userId) (rewards w)))"
  shows "processMilestoneReward e userId userType ms w = (Inl SyntaxError, w)"
  using assms milestone_amount_nonzero [OF assms(1)]
  by (simp add: processMilestoneReward_def Reward_findByUser_def some_milestone_parsed)

lemma processMilestoneReward_outside_window:
  assumes amt: "map_of (milestoneAmounts e) ms = Some a"
      and none: "\<not> list_ex (\<lambda>r. rw_reward_type r = milestone_bonus \<and> rw_metadata r \<noteq> Meta_null)
                   (take 1000 (filter (\<lambda>r. rw_user_id r = userId) (rewards w)))"
      and fresh: "\<not> list_ex (\<lambda>r. rw_id r = env_uuid e (uuid_calls w)) (rewards w)"
  shows "\<exists>row. rw_user_id row = userId \<and> rw_reward_type row = milestone_bonus
           \<and> rw_metadata row = Meta_text [(''milestone'', JNum (of_nat ms)),
                                           (''achievement_date'', JNum (of_int (env_now e)))]
           \<and> processMilestoneReward e userId userType ms w
               = (Inl (if env_payment_ok e (length (credit_requests w)) then TypeError else RequestError),
                  w\<lparr>uuid_calls := Suc (uuid_calls w),
                    rewards := row # rewards w,
                    credit_requests := credit_request_of row # credit_requests w\<rparr>)"
proof -
  let ?rd = "\<lparr> rd_user_id = userId, rd_user_type = userType, rd_reward_type = milestone_bonus,
                rd_amount = a, rd_currency = None, rd_expiry_date = None, rd_source_id = None,
                rd_source_type = milestone, rd_description = Some ''Milestone bonus'',
                rd_metadata = Some [(''milestone'', JNum (of_nat ms)),
                                    (''achievement_date'', JNum (of_int (env_now e)))] \<rparr>"
  define row where "row = Reward_row e (env_uuid e (uuid_calls w)) ?rd"
  define w1 where "w1 = w\<lparr>uuid_calls := Suc (uuid_calls w), rewards := row # rewards w\<rparr>"
  have cr: "Reward_create e ?rd w = (Inr (Some (parse_row_metadata row)), w1)"
    unfolding row_def w1_def by (rule Reward_create_fresh [OF fresh])
  have scan: "some_milestone ms (Reward_findByUser userId None 1000 0 w) = Inr False"
    using none by (simp add: Reward_findByUser_def some_milestone_parsed)
  have idr: "rw_id row = env_uuid e (uuid_calls w)" and st: "rw_status row = pending"
    by (simp_all add: row_def Reward_row_def)
  have found: "Reward_findById (rw_id (parse_row_metadata row)) w1 = Some (parse_row_metadata row)"
    by (simp add: w1_def Reward_findById_def parse_row_metadata_fields)
  have pend: "rw_status (parse_row_metadata row) = pending"
    using st by (simp add: parse_row_metadata_fields)
  have req: "credit_request_of (parse_row_metadata row) = credit_request_of row"
    by (simp add: credit_request_of_def parse_row_metadata_fields)
  have "processMilestoneReward e userId userType ms w
          = (Inl (if env_payment_ok e (length (credit_requests w)) then TypeError else RequestError),
             w1\<lparr>credit_requests := credit_request_of row # credit_requests w1\<rparr>)"
    using amt milestone_amount_nonzero [OF amt] scan cr creditReward_pending [OF found pend, of e]
    by (simp add: processMilestoneReward_def req w1_def)
  moreover have "rw_user_id row = userId" "rw_reward_type row = milestone_bonus"
    "rw_metadata row = Meta_text [(''milestone'', JNum (of_nat ms)),
                                  (''achievement_date'', JNum (of_int (env_now e)))]"
    by (simp_all add: row_def Reward_row_def)
  ultimately show ?thesis
    by (intro exI [of _ row]) (simp add: w1_def)
qed

lemma filter_bulk_rewards:
  "filter (\<lambda>r. rw_user_id r = ''cust-1'') (map bulk_reward ks) = map bulk_reward ks"
  by (induction ks) (simp_all add: bulk_reward_def sample_reward_def)

lemma bulk_rewards_no_milestone:
  "\<not> list_ex (\<lambda>r. rw_reward_type r = milestone_bonus \<and> Q r) (map bulk_reward ks)"
  by (induction ks) (simp_all add: bulk_reward_def)

lemma bulk_rewards_other_id:
  "\<not> list_ex (\<lambda>r. rw_id r = CHR ''u'' # s) (map bulk_reward ks)"
  by (induction ks) (simp_all add: bulk_reward_def)

lemma crowded_world_fields:
  "rewards crowded_world = map bulk_reward [0..<1000] @ [milestone_5_reward]"
  "referrals crowded_world = map completed_referral [0..<5]"
  "uuid_calls crowded_world = 0"
  "credit_requests crowded_world = []"
  by (simp_all add: crowded_world_def empty_world_def del: upt_rec_numeral)

lemma crowded_world_window:
  "take 1000 (filter (\<lambda>r. rw_user_id r = ''cust-1'') (rewards crowded_world))
     = map bulk_reward [0..<1000]"
  by (simp add: crowded_world_fields filter_bulk_rewards del: upt_rec_numeral)

text \<open>
  Claim C3.  At most one \<open>milestone_bonus\<close> reward tagged with a given milestone is to
  exist per user, however often the milestone check runs.  The check reads only the
  thousand newest rewards of the user: for a user with five completed referrals whose
  reward for milestone 5 lies behind a thousand newer rewards, one more run of
  \<^verbatim>\<open>checkMilestoneAchievements\<close> inserts a second reward tagged 5.
\<close>

theorem checkMilestoneAchievements_second_reward:
  "length (milestone_rewards_of ''cust-1'' 5 crowded_world) = 1
   \<and> Referral_completed_count ''cust-1'' crowded_world = 5
   \<and> length (milestone_rewards_of ''cust-1'' 5
               (snd (checkMilestoneAchievements env0 ''cust-1'' ''customer'' crowded_world))) = 2"
proof -
  have amt: "map_of (milestoneAmounts env0) 5 = Some 15"
    by (simp add: milestoneAmounts_def num_or_def env0_def)
  have none: "\<not> list_ex (\<lambda>r. rw_reward_type r = milestone_bonus \<and> rw_metadata r \<noteq> Meta_null)
                (take 1000 (filter (\<lambda>r. rw_user_id r = ''cust-1'') (rewards crowded_world)))"
    unfolding crowded_world_window by (rule bulk_rewards_no_milestone)
  have fresh: "\<not> list_ex (\<lambda>r. rw_id r = env_uuid env0 (uuid_calls crowded_world)) (rewards crowded_world)"
    using bulk_rewards_other_id [of "''uid-''" "[0..<1000]"]
    by (simp add: crowded_world_fields env0_def sample_uuid_def milestone_5_reward_def
          del: upt_rec_numeral)
  have old_tagged: "filter (\<lambda>r. rw_user_id r = ''cust-1'' \<and> rw_reward_type r = milestone_bonus
                 \<and> (case rw_metadata r of
                       Meta_text obj \<Rightarrow> map_of obj ''milestone'' = Some (JNum (of_nat 5))
                     | _ \<Rightarrow> False)) (rewards crowded_world) = [milestone_5_reward]"
  proof -
    have "filter (\<lambda>r. rw_user_id r = ''cust-1'' \<and> rw_reward_type r = milestone_bonus
                 \<and> (case rw_metadata r of
                       Meta_text obj \<Rightarrow> map_of obj ''milestone'' = Some (JNum (of_nat 5))
                     | _ \<Rightarrow> False)) (map bulk_reward ks) = []" for ks
      by (induction ks) (simp_all add: bulk_reward_def)
    then show ?thesis
      by (simp add: crowded_world_fields milestone_5_reward_def sample_reward_def
            del: upt_rec_numeral)
  qed
  have before: "length (milestone_rewards_of ''cust-1'' 5 crowded_world) = 1"
    using old_tagged by (simp add: milestone_rewards_of_def)
  have count: "Referral_completed_count ''cust-1'' crowded_world = 5"
    by (simp add: Referral_completed_count_def crowded_world_fields completed_referral_def)
  from processMilestoneReward_outside_window [OF amt none fresh, of "''customer''"]
  obtain row where row: "rw_user_id row = ''cust-1''" "rw_reward_type row = milestone_bonus"
      "rw_metadata row = Meta_text [(''milestone'', JNum (of_nat 5)),
                                    (''achievement_date'', JNum (of_int (env_now env0)))]"
    and run: "processMilestoneReward env0 ''cust-1'' ''customer'' 5 crowded_world
               = (Inl (if env_payment_ok env0 (length (credit_requests crowded_world))
                       then TypeError else RequestError),
                  crowded_world\<lparr>uuid_calls := Suc (uuid_calls crowded_world),
                    rewards := row # rewards crowded_world,
                    credit_requests := credit_request_of row # credit_requests crowded_world\<rparr>)"
    by blast
  have "snd (checkMilestoneAchievements env0 ''cust-1'' ''customer'' crowded_world)
          = crowded_world\<lparr>uuid_calls := Suc (uuid_calls crowded_world),
                    rewards := row # rewards crowded_world,
                    credit_requests := credit_request_of row # credit_requests crowded_world\<rparr>"
    using count run by (simp add: checkMilestoneAchievements_def del: upt_rec_numeral)
  then have "milestone_rewards_of ''cust-1'' 5
               (snd (checkMilestoneAchievements env0 ''cust-1'' ''customer'' crowded_world))
             = [row, milestone_5_reward]"
    using row old_tagged by (simp add: milestone_rewards_of_def del: upt_rec_numeral)
  with before count show ?thesis by simp
qed

subsection \<open>Referral status transitions\<close>

lemma Referral_completeReferral_keeps_terminal:
  assumes "r \<in> set (referrals w)" and "rf_status r \<noteq> ref_pending"
  shows "r \<in> set (referrals (snd (Referral_completeReferral e i order_id delivery_id w)))"
  using assms by (auto simp: Referral_completeReferral_def)

lemma expire_each_keeps_other_ids:
  assumes "r \<in> set (referrals w)" and "rf_id r \<notin> rf_id ` set rows"
  shows "r \<in> set (referrals (expire_each rows w))"
  using assms
proof (induction rows arbitrary: w)
  case Nil
  then show ?case by simp
next
  case (Cons x rows)
  from Cons.prems have "r \<in> set (referrals (snd (Referral_updateStatus (rf_id x) ref_expired w)))"
    by (auto simp: Referral_updateStatus_def)
  with Cons show ?case by simp
qed

text \<open>
  Run without another request in between, the expiry job leaves every referral that is
  not pending as it is (identifiers are the table's primary key).
\<close>

lemma referral_expiry_job_keeps_terminal:
  assumes "distinct (map rf_id (referrals w))"
      and "r \<in> set (referrals w)" and "rf_status r \<noteq> ref_pending"
  shows "r \<in> set (referrals (referral_expiry_job e w))"
proof -
  have "rf_id r \<notin> rf_id ` set (Referral_getExpiredReferrals e w)"
  proof
    assume "rf_id r \<in> rf_id ` set (Referral_getExpiredReferrals e w)"
    then obtain x where x: "x \<in> set (referrals w)" "rf_status x = ref_pending" "rf_id x = rf_id r"
      by (auto simp: Referral_getExpiredReferrals_def)
    with assms(1,2) have "x = r"
      by (meson distinct_map inj_onD)
    with x assms(3) show False by simp
  qed
  with assms(2) show ?thesis
    unfolding referral_expiry_job_def by (rule expire_each_keeps_other_ids)
qed

text \<open>
  Claim C2.  A completed referral is never to change status again, the expiry sweep
  included: its write is to apply only while the referral is still pending.  The job's
  write is \<^verbatim>\<open>Referral.updateStatus\<close>, an update by identifier alone.  For a pending
  referral past its expiry date that the job has read, and that a trigger then completes,
  the job's loop overwrites \<open>completed\<close> with \<open>expired\<close>.
\<close>

theorem expiry_sweep_overwrites_completed:
  "Referral_getExpiredReferrals env0 overdue_world = [overdue_referral]
   \<and> map rf_status
        (referrals (snd (Referral_completeReferral env0 ''referral-9'' (Some ''order-1'') None
                           overdue_world))) = [ref_completed]
   \<and> map rf_status
        (referrals (expire_each (Referral_getExpiredReferrals env0 overdue_world)
                      (snd (Referral_completeReferral env0 ''referral-9'' (Some ''order-1'') None
                              overdue_world)))) = [ref_expired]"
  by (simp add: Referral_getExpiredReferrals_def Referral_completeReferral_def
        Referral_updateStatus_def Referral_findById_def overdue_world_def overdue_referral_def
        completed_referral_def empty_world_def env0_def)

subsection \<open>The trigger predicate\<close>

text \<open>
  What the predicate computes for a \<open>first_order\<close> referral: it holds of an event
  with a payload exactly when the trigger type is \<open>order_completed\<close>, the payload's
  customer is the referee, and the minimum order amount is NULL or the payload carries an
  amount that is at least the minimum.  A minimum of zero is not NULL.
\<close>

lemma shouldCompleteReferral_first_order_iff:
  assumes "rf_completion_condition rf = first_order"
  shows "shouldCompleteReferral rf triggerType (Some d)
           = Inr (triggerType = ''order_completed''
                  \<and> td_customer_id d = Some (rf_referee_id rf)
                  \<and> (rf_minimum_order_amount rf = None
                     \<or> (\<exists>a m. td_amount d = Some a \<and> rf_minimum_order_amount rf = Some m \<and> m \<le> a)))"
  using assms
  by (auto simp: shouldCompleteReferral_def js_ge_def js_not_def read_decimal_def
           split: option.splits)

lemma shouldCompleteReferral_no_payload:
  assumes "rf_completion_condition rf = first_order"
  shows "shouldCompleteReferral rf triggerType None
           = (if triggerType = ''order_completed'' then Inl TypeError else Inr False)"
  using assms by (simp add: shouldCompleteReferral_def)

text \<open>The boundary is inclusive, and an amount below the minimum never matches.\<close>

lemma shouldCompleteReferral_below_minimum:
  assumes "rf_completion_condition rf = first_order"
      and "rf_minimum_order_amount rf = Some m" and "td_amount d = Some a" and "a < m"
  shows "shouldCompleteReferral rf triggerType (Some d) = Inr False"
  using assms by (simp add: shouldCompleteReferral_first_order_iff)

lemma shouldCompleteReferral_at_minimum:
  assumes "rf_completion_condition rf = first_order"
      and "rf_minimum_order_amount rf = Some m" and "td_amount d = Some m"
      and "td_customer_id d = Some (rf_referee_id rf)"
  shows "shouldCompleteReferral rf ''order_completed'' (Some d) = Inr True"
  using assms by (simp add: shouldCompleteReferral_first_order_iff)

lemma shouldCompleteReferral_boundary_example:
  "shouldCompleteReferral order_referral ''order_completed'' (Some (order_payload (1999 / 100)))
     = Inr False
   \<and> shouldCompleteReferral order_referral ''order_completed'' (Some (order_payload 20))
     = Inr True"
  by (simp add: shouldCompleteReferral_def js_ge_def js_not_def read_decimal_def
        order_referral_def overdue_referral_def completed_referral_def order_payload_def)

text \<open>
  A referral the program created never has a NULL minimum: \<^verbatim>\<open>Referral.create\<close>
  writes \<^verbatim>\<open>referralData.minimum_order_amount || 0\<close>.
\<close>

lemma Referral_row_minimum:
  "\<exists>m. rf_minimum_order_amount (Referral_row e i referralData) = Some m"
  by (simp add: Referral_row_def)

text \<open>
  Claim C5.  For a \<open>first_order\<close> referral the predicate is to hold exactly when the
  trigger type is \<open>order_completed\<close>, the payload's customer is the referee, and the
  minimum order amount is unset or zero or the payload's amount is at least the minimum.
  The guard \<^verbatim>\<open>!referral.minimum_order_amount\<close> is false for the text
  \<^verbatim>\<open>'0.00'\<close>, so with a minimum of zero the comparison still runs: an event of the
  referee's order without an amount, or with a negative one, is refused, while an amount
  of zero is accepted.
\<close>

theorem shouldCompleteReferral_zero_minimum:
  "rf_completion_condition zero_minimum_referral = first_order
   \<and> rf_minimum_order_amount zero_minimum_referral = Some 0
   \<and> td_customer_id order_without_amount = Some (rf_referee_id zero_minimum_referral)
   \<and> shouldCompleteReferral zero_minimum_referral ''order_completed'' (Some order_without_amount)
       = Inr False
   \<and> shouldCompleteReferral zero_minimum_referral ''order_completed'' (Some (order_payload (- 1)))
       = Inr False
   \<and> shouldCompleteReferral zero_minimum_referral ''order_completed'' (Some (order_payload 0))
       = Inr True"
  by (simp add: shouldCompleteReferral_def js_ge_def js_not_def read_decimal_def
        zero_minimum_referral_def overdue_referral_def completed_referral_def
        order_payload_def order_without_amount_def)

subsection \<open>Validation of a referral code request\<close>

lemma joi_round2_positive:
  assumes "0 < joi_round2 x"
  shows "0 < x"
proof -
  from assms have "0 < \<lfloor>x * 100 + 1 / 2\<rfloor>"
    by (simp add: joi_round2_def)
  then have "1 \<le> x * 100 + 1 / 2"
    by (simp add: le_floor_iff)
  then show ?thesis by simp
qed

text \<open>
  Claim C10.  \<^verbatim>\<open>validateReferralCode\<close> accepts a request only if its
  \<open>max_usage\<close>, when supplied, is an integer from 1 to 1000, its \<open>bonus_amount\<close>, when
  supplied, is positive, and its \<open>expiry_date\<close>, when supplied, is later than now; in an
  accepted request an omitted \<open>max_usage\<close> becomes 50, an omitted \<open>bonus_type\<close>
  becomes \<open>credit\<close> and an omitted \<open>minimum_order_amount\<close> becomes 0.
\<close>

theorem validateReferralCode_accepts:
  assumes "validateReferralCode e b = Some v"
  shows "(\<forall>m. cb_max_usage b = Some m \<longrightarrow> m \<in> \<int> \<and> 1 \<le> m \<and> m \<le> 1000)
         \<and> (\<forall>x. cb_bonus_amount b = Some x \<longrightarrow> 0 < x)
         \<and> (\<forall>t. cb_expiry_date b = Some t \<longrightarrow> env_now e < t)
         \<and> (cb_max_usage b = None \<longrightarrow> cv_max_usage v = 50)
         \<and> (cb_bonus_type b = None \<longrightarrow> cv_bonus_type v = ''credit'')
         \<and> (cb_minimum_order_amount b = None \<longrightarrow> cv_minimum_order_amount v = 0)"
proof -
  from assms have ok:
      "optional_ok (\<lambda>m. joi_safe m \<and> joi_integer m \<and> 1 \<le> m \<and> m \<le> 1000) (cb_max_usage b)"
      "optional_ok (\<lambda>x. joi_safe x \<and> 0 < joi_round2 x) (cb_bonus_amount b)"
      "optional_ok (\<lambda>t. env_now e < t) (cb_expiry_date b)"
    and v: "cv_max_usage v = (case cb_max_usage b of None \<Rightarrow> 50 | Some m \<Rightarrow> m)"
      "cv_bonus_type v = (case cb_bonus_type b of None \<Rightarrow> ''credit'' | Some t \<Rightarrow> t)"
      "cv_minimum_order_amount v
         = (case cb_minimum_order_amount b of None \<Rightarrow> 0 | Some x \<Rightarrow> joi_round2 x)"
    by (auto simp: validateReferralCode_def split: if_splits)
  have int: "m \<in> \<int>" if "joi_integer m" for m
  proof -
    from that have "of_int \<lfloor>m\<rfloor> = m" unfolding joi_integer_def .
    then show ?thesis by (metis Ints_of_int)
  qed
  show ?thesis
    using ok v int joi_round2_positive
    by (auto simp: optional_ok_def)
qed

theorem validateReferralCode_accepts_witness:
  "(\<exists>v. validateReferralCode env0 sample_code_body = Some v
        \<and> cv_max_usage v = 50 \<and> cv_bonus_type v = ''credit'' \<and> cv_minimum_order_amount v = 0)
   \<and> (0 :: rat) < 25 / 2 \<and> env_now env0 < 2000"
proof -
  have "\<exists>v. validateReferralCode env0 sample_code_body = Some v"
    by (simp add: validateReferralCode_def sample_code_body_def optional_ok_def joi_safe_def
          joi_round2_def env0_def)
  then obtain v where v: "validateReferralCode env0 sample_code_body = Some v" ..
  from validateReferralCode_accepts [OF v] v show ?thesis
    by (simp add: sample_code_body_def)
qed

subsection \<open>Creating a referral\<close>

lemma Referral_row_id [simp]: "rf_id (Referral_row e i referralData) = i"
  by (simp add: Referral_row_def)

lemma Referral_create_cases:
  "(\<exists>err w1. Referral_create e referralData w = (Inl err, w1) \<and> referrals w1 = referrals w)
   \<or> (\<exists>row w1. Referral_create e referralData w = (Inr (Some row), w1)
          \<and> row = Referral_row e (env_uuid e (uuid_calls w)) referralData
          \<and> referrals w1 = row # referrals w
          \<and> referral_key row \<notin> referral_key ` set (referrals w))"
  by (auto simp: Referral_create_def uuidv4_def Referral_findById_def list_ex_iff)

lemma referrals_after_side_effects [simp]:
  "referrals (sendReferralNotifications r w) = referrals w"
  "referrals (ReferralCode_incrementUsage i w) = referrals w"
  "referrals (Campaign_incrementParticipants j w) = referrals w"
  by (simp_all add: sendReferralNotifications_def sendNotification_def
        ReferralCode_incrementUsage_def Campaign_incrementParticipants_def)

lemma store_referral_cases:
  "(\<exists>w1. store_referral e v referralCode cmp w = (Response 500 ''Internal server error'', w1)
          \<and> referrals w1 = referrals w)
   \<or> (\<exists>row w1. store_referral e v referralCode cmp w = (Response 201 ''Referral created successfully'', w1)
          \<and> referrals w1 = row # referrals w
          \<and> referral_key row \<notin> referral_key ` set (referrals w)
          \<and> rf_status row = ref_pending
          \<and> rf_completion_condition row = getCompletionCondition (rv_referee_type v)
          \<and> rf_referrer_bonus row
               = (case cmp of Some c \<Rightarrow> cp_bonus_amount c | None \<Rightarrow> rc_bonus_amount referralCode)
          \<and> rf_referee_bonus row = getRefereeBonus e (rv_referee_type v))"
proof -
  let ?rd = "\<lparr> fd_referrer_id = rc_owner_id referralCode,
               fd_referee_id = rv_referee_id v,
               fd_referrer_type = rc_owner_type referralCode,
               fd_referee_type = rv_referee_type v,
               fd_referral_code = rv_referral_code v,
               fd_completion_condition = getCompletionCondition (rv_referee_type v),
               fd_referrer_bonus =
                 (case cmp of Some c \<Rightarrow> cp_bonus_amount c | None \<Rightarrow> rc_bonus_amount referralCode),
               fd_referee_bonus = getRefereeBonus e (rv_referee_type v),
               fd_minimum_order_amount = rc_minimum_order_amount referralCode,
               fd_campaign_id = map_option cp_id cmp \<rparr>"
  from Referral_create_cases [of e ?rd w] show ?thesis
  proof (elim disjE exE conjE)
    fix err w1
    assume "Referral_create e ?rd w = (Inl err, w1)" "referrals w1 = referrals w"
    then show ?thesis by (simp add: store_referral_def)
  next
    fix row w1
    assume cr: "Referral_create e ?rd w = (Inr (Some row), w1)"
      and row: "row = Referral_row e (env_uuid e (uuid_calls w)) ?rd"
      and rs: "referrals w1 = row # referrals w"
      and key: "referral_key row \<notin> referral_key ` set (referrals w)"
    have fields: "rf_status row = ref_pending"
      "rf_completion_condition row = getCompletionCondition (rv_referee_type v)"
      "rf_referrer_bonus row
         = (case cmp of Some c \<Rightarrow> cp_bonus_amount c | None \<Rightarrow> rc_bonus_amount referralCode)"
      "rf_referee_bonus row = getRefereeBonus e (rv_referee_type v)"
      by (simp_all add: row Referral_row_def num_or_def)
    show ?thesis
      using cr rs key fields
      by (cases cmp) (simp_all add: store_referral_def)
  qed
qed

lemma createReferral_with_referrals:
  "referrals (snd (createReferral_with findActive e body w)) = referrals w
   \<or> (\<exists>row. referrals (snd (createReferral_with findActive e body w)) = row # referrals w
          \<and> referral_key row \<notin> referral_key ` set (referrals w))"
proof -
  have stored: "referrals (snd (store_referral e v referralCode cmp w)) = referrals w
     \<or> (\<exists>row. referrals (snd (store_referral e v referralCode cmp w)) = row # referrals w
            \<and> referral_key row \<notin> referral_key ` set (referrals w))" for v referralCode cmp
    using store_referral_cases [of e v referralCode cmp w] by auto
  show ?thesis
  proof (cases "validateReferral e body")
    case None
    then show ?thesis by (simp add: createReferral_with_def)
  next
    case (Some v)
    show ?thesis
    proof (cases "ReferralCode_validateCode e (rv_referral_code v) w")
      case None
      with Some show ?thesis by (simp add: createReferral_with_def)
    next
      case c: (Some referralCode)
      show ?thesis
      proof (cases "findActive (rc_owner_type referralCode) w")
        case (Inl err)
        with Some c show ?thesis by (simp add: createReferral_with_def)
      next
        case (Inr activeCampaigns)
        with Some c stored show ?thesis by (simp add: createReferral_with_def)
      qed
    qed
  qed
qed


text \<open>
  Claim C4.  Creation answers 409 "Referral already exists between these users", and
  changes nothing, whenever the request is valid, the code is usable, the referee is not
  the code's owner and some referral of the referee has the owner's identity and role as
  its referrer, whichever code that referral used.  And creation keeps the store free of
  two referrals with the same referrer, referee and roles.  Both hold whatever the
  campaign lookup returns.
\<close>

theorem createReferral_rejects_duplicate:
  "(validateReferral e body = Some v
      \<and> ReferralCode_validateCode e (rv_referral_code v) w = Some referralCode
      \<and> rc_owner_id referralCode \<noteq> rv_referee_id v
      \<and> list_ex (\<lambda>r. rf_referee_id r = rv_referee_id v
                      \<and> rf_referrer_id r = rc_owner_id referralCode
                      \<and> rf_referrer_type r = rc_owner_type referralCode) (referrals w)
    \<longrightarrow> createReferral_with findActive e body w
          = (Response 409 ''Referral already exists between these users'', w))
   \<and> (distinct (map referral_key (referrals w))
    \<longrightarrow> distinct (map referral_key (referrals (snd (createReferral_with findActive e body w)))))"
proof (intro conjI impI)
  assume a: "validateReferral e body = Some v
      \<and> ReferralCode_validateCode e (rv_referral_code v) w = Some referralCode
      \<and> rc_owner_id referralCode \<noteq> rv_referee_id v
      \<and> list_ex (\<lambda>r. rf_referee_id r = rv_referee_id v
                      \<and> rf_referrer_id r = rc_owner_id referralCode
                      \<and> rf_referrer_type r = rc_owner_type referralCode) (referrals w)"
  then have "list_ex (\<lambda>r. rf_referrer_id r = rc_owner_id referralCode
                           \<and> rf_referrer_type r = rc_owner_type referralCode)
               (Referral_findByReferee (rv_referee_id v) w)"
    by (auto simp: Referral_findByReferee_def list_ex_iff)
  with a show "createReferral_with findActive e body w
          = (Response 409 ''Referral already exists between these users'', w)"
    by (simp add: createReferral_with_def)
next
  assume d: "distinct (map referral_key (referrals w))"
  from createReferral_with_referrals [of findActive e body w]
  show "distinct (map referral_key (referrals (snd (createReferral_with findActive e body w))))"
    using d by auto
qed

theorem createReferral_rejects_duplicate_witness:
  "createReferral env0 (sample_body ''CUSALT01'') referred_world
     = (Response 409 ''Referral already exists between these users'', referred_world)
   \<and> distinct (map referral_key
        (referrals (snd (createReferral env0 (sample_body ''CUSALT01'') referred_world))))"
proof -
  let ?v = "\<lparr> rv_referral_code = ''CUSALT01'', rv_referee_id = referee_uuid,
               rv_referee_type = ''customer'' \<rparr>"
  let ?c = "sample_code\<lparr>rc_id := ''code-2'', rc_code := ''CUSALT01''\<rparr>"
  have v: "validateReferral env0 (sample_body ''CUSALT01'') = Some ?v"
    by (simp add: validateReferral_def sample_body_def joi_string_max_def env0_def
          referee_uuid_def)
  have c: "ReferralCode_validateCode env0 (rv_referral_code ?v) referred_world = Some ?c"
    by (simp add: ReferralCode_validateCode_def referred_world_def empty_world_def
          sample_code_def)
  have n: "rc_owner_id ?c \<noteq> rv_referee_id ?v"
    by (simp add: sample_code_def referee_uuid_def)
  have x: "list_ex (\<lambda>r. rf_referee_id r = rv_referee_id ?v
                      \<and> rf_referrer_id r = rc_owner_id ?c
                      \<and> rf_referrer_type r = rc_owner_type ?c) (referrals referred_world)"
    by (simp add: referred_world_def empty_world_def overdue_referral_def
          completed_referral_def sample_code_def)
  have d: "distinct (map referral_key (referrals referred_world))"
    by (simp add: referred_world_def empty_world_def)
  from createReferral_rejects_duplicate
         [of env0 "sample_body ''CUSALT01''" ?v referred_world ?c Campaign_findActive]
       v c n x d
  show ?thesis
    unfolding createReferral_def by blast
qed

lemma createReferral_with_created:
  assumes "createReferral_with findActive e body w = (Response 201 msg, w')"
  shows "\<exists>v referralCode activeCampaigns row.
           validateReferral e body = Some v
         \<and> ReferralCode_validateCode e (rv_referral_code v) w = Some referralCode
         \<and> findActive (rc_owner_type referralCode) w = Inr activeCampaigns
         \<and> referrals w' = row # referrals w
         \<and> rf_status row = ref_pending
         \<and> rf_completion_condition row = getCompletionCondition (rv_referee_type v)
         \<and> rf_referrer_bonus row
              = (case activeCampaigns of
                   [] \<Rightarrow> rc_bonus_amount referralCode | c # cs \<Rightarrow> cp_bonus_amount c)
         \<and> rf_referee_bonus row = getRefereeBonus e (rv_referee_type v)"
proof (cases "validateReferral e body")
  case None
  with assms show ?thesis by (simp add: createReferral_with_def)
next
  case (Some v)
  show ?thesis
  proof (cases "ReferralCode_validateCode e (rv_referral_code v) w")
    case None
    with Some assms show ?thesis by (simp add: createReferral_with_def)
  next
    case c: (Some referralCode)
    show ?thesis
    proof (cases "findActive (rc_owner_type referralCode) w")
      case (Inl err)
      with Some c assms show ?thesis
        by (simp add: createReferral_with_def split: if_splits)
    next
      case (Inr activeCampaigns)
      let ?cmp = "case activeCampaigns of [] \<Rightarrow> None | c # cs \<Rightarrow> Some c"
      from Some c Inr assms
      have st: "store_referral e v referralCode ?cmp w = (Response 201 msg, w')"
        by (simp add: createReferral_with_def split: if_splits)
      from store_referral_cases [of e v referralCode ?cmp w] st
      obtain row where "referrals w' = row # referrals w" "rf_status row = ref_pending"
        "rf_completion_condition row = getCompletionCondition (rv_referee_type v)"
        "rf_referrer_bonus row
           = (case ?cmp of Some c \<Rightarrow> cp_bonus_amount c | None \<Rightarrow> rc_bonus_amount referralCode)"
        "rf_referee_bonus row = getRefereeBonus e (rv_referee_type v)"
        by auto
      moreover have "(case ?cmp of Some c \<Rightarrow> cp_bonus_amount c | None \<Rightarrow> rc_bonus_amount referralCode)
          = (case activeCampaigns of [] \<Rightarrow> rc_bonus_amount referralCode | c # cs \<Rightarrow> cp_bonus_amount c)"
        by (cases activeCampaigns) simp_all
      ultimately show ?thesis
        using Some c Inr by auto
    qed
  qed
qed

text \<open>
  Claim C6.  In the scenario (code \<open>CUS7F3K2A\<close> of cust-1, bonus 10, used 0 of 50 times,
  a referee who is not the owner, role customer) creation is to store a pending referral
  with completion condition \<open>first_order\<close> and bonuses 10 and 10.  The handler calls
  \<^verbatim>\<open>Campaign.findActive\<close>, which models/Campaign does not define: the request is
  answered with 500 and nothing is stored.
\<close>

theorem createReferral_scenario_fails:
  "createReferral env0 (sample_body ''CUS7F3K2A'') scenario_world
     = (Response 500 ''Internal server error'', scenario_world)"
  by (simp add: createReferral_def createReferral_with_def Campaign_findActive_def
        validateReferral_def sample_body_def joi_string_max_def env0_def referee_uuid_def
        ReferralCode_validateCode_def scenario_world_def empty_world_def sample_code_def
        Referral_findByReferee_def)

text \<open>
  Were the lookup defined and empty (no running campaign), the same request would store
  the referral the scenario describes.
\<close>

lemma createReferral_scenario_with_lookup:
  "\<exists>row w'. createReferral_with (\<lambda>audience w. Inr []) env0 (sample_body ''CUS7F3K2A'') scenario_world
               = (Response 201 ''Referral created successfully'', w')
      \<and> referrals w' = [row]
      \<and> rf_status row = ref_pending
      \<and> rf_completion_condition row = first_order
      \<and> rf_referrer_bonus row = 10
      \<and> rf_referee_bonus row = 10"
  by (simp add: createReferral_with_def store_referral_def Referral_create_def uuidv4_def
        Referral_row_def Referral_findById_def referral_key_def
        validateReferral_def sample_body_def joi_string_max_def env0_def referee_uuid_def
        ReferralCode_validateCode_def scenario_world_def empty_world_def sample_code_def
        Referral_findByReferee_def getCompletionCondition_def getRefereeBonus_def num_or_def
        sample_uuid_def)

end
